theory Spec2Isabelle
  imports Main "HOL-Library.AList"
begin

section \<open>Python values used by both modules\<close>

text \<open>
  Exceptions are values. \<open>KeyError\<close> and \<open>AttributeError\<close> carry the key or the
  attribute name that was not found, \<open>H5Error\<close> the dataset name the HDF5 library refused.
\<close>

datatype error = KeyError string | IndexError | AttributeError string | H5Error string

text \<open>
  Both modules log through a module-level \<open>logger\<close>; the records it has received are
  part of the state, in the order they were emitted.
\<close>

datatype level = WARNING | ERROR

record logger =
  records :: "(level \<times> string) list"

text \<open>
  A Python \<open>dict\<close> with string keys, as an association list in insertion order:
  \<open>d[k]\<close> is \<open>map_of d k\<close> (\<open>None\<close> where Python raises \<open>KeyError\<close>),
  \<open>d[k] = v\<close> is \<open>AList.update k v d\<close>, \<open>del d[k]\<close> is \<open>AList.delete k d\<close>.
  A dictionary has each key once: \<open>distinct (map fst d)\<close>.
\<close>

type_synonym 'v pydict = "(string \<times> 'v) list"

definition keys :: "'v pydict \<Rightarrow> string list" where
  "keys d = map fst d"

definition pop :: "'v pydict \<Rightarrow> string \<Rightarrow> error + ('v \<times> 'v pydict)" where
  "pop d k = (case map_of d k of
                None \<Rightarrow> Inl (KeyError k)
              | Some v \<Rightarrow> Inr (v, AList.delete k d))"

subsection \<open>Strings\<close>

text \<open>
  \<open>s.split(sep)\<close> for a non-empty separator: the pieces between the occurrences of
  \<open>sep\<close>, found from left to right without overlap. The accumulator holds the current
  piece reversed. Python raises \<open>ValueError\<close> on an empty separator; every call in the
  two modules passes a literal, non-empty one.
\<close>

fun split_from :: "string \<Rightarrow> string \<Rightarrow> string \<Rightarrow> string list" where
  "split_from sep acc [] = [rev acc]"
| "split_from sep acc (c # cs) =
     (if take (length sep) (c # cs) = sep
      then rev acc # split_from sep [] (drop (length sep - 1) cs)
      else split_from sep (c # acc) cs)"

definition str_split :: "string \<Rightarrow> string \<Rightarrow> string list" where
  "str_split s sep = split_from sep [] s"

text \<open>\<open>sep.join(xs)\<close>.\<close>

fun str_join :: "string \<Rightarrow> string list \<Rightarrow> string" where
  "str_join sep [] = []"
| "str_join sep [x] = x"
| "str_join sep (x # y # ys) = x @ sep @ str_join sep (y # ys)"

text \<open>\<open>str(n)\<close> for a non-negative integer.\<close>

fun str_nat :: "nat \<Rightarrow> string" where
  "str_nat n = (if n < 10 then [''0123456789'' ! n]
                else str_nat (n div 10) @ [''0123456789'' ! (n mod 10)])"

declare str_nat.simps [simp del]

subsection \<open>Arrays\<close>

text \<open>
  The element types of numpy that property arrays take, with their width (in bits for
  numbers, in characters for text), and \<open>str(dtype)\<close>.
\<close>

datatype dtype =
    BoolT | IntT nat | UIntT nat | FloatT nat | ComplexT nat
  | BytesT nat | UnicodeT nat | ObjectT

fun dtype_str :: "dtype \<Rightarrow> string" where
  "dtype_str BoolT = ''bool''"
| "dtype_str (IntT n) = ''int'' @ str_nat n"
| "dtype_str (UIntT n) = ''uint'' @ str_nat n"
| "dtype_str (FloatT n) = ''float'' @ str_nat n"
| "dtype_str (ComplexT n) = ''complex'' @ str_nat n"
| "dtype_str (BytesT n) = ''|S'' @ str_nat n"
| "dtype_str (UnicodeT n) = ''<U'' @ str_nat n"
| "dtype_str ObjectT = ''object''"

record 'a ndarray =
  dtype :: dtype
  shape :: "nat list"
  data :: "'a list"

text \<open>
  \<open>arr[0].dtype\<close>: indexing the first axis raises \<open>IndexError\<close> when the array has no
  axis or its first axis has length zero. The element has the array's element type
  (for text, numpy reports the width of that one element, of the same kind; the width
  plays no role below).
\<close>

definition getitem0_dtype :: "'a ndarray \<Rightarrow> error + dtype" where
  "getitem0_dtype arr =
     (case shape arr of
        [] \<Rightarrow> Inl IndexError
      | n # _ \<Rightarrow> if n = 0 then Inl IndexError else Inr (dtype arr))"

section \<open>openpnm/io/_hdf5.py\<close>

text \<open>
  The file handle \<open>f\<close> is the list of datasets created so far, each with its name and
  the array it was created from (\<open>shape\<close>, \<open>dtype\<close> and \<open>data\<close> are the array's).
  h5py is an external library: which calls of \<open>create_dataset\<close> it refuses (a name
  already in use, an element type it cannot store) is the parameter \<open>refuses\<close>; a
  refused call raises, any other call adds the dataset.
\<close>

type_synonym 'a h5file = "(string \<times> 'a ndarray) list"

type_synonym 'a h5py = "'a h5file \<Rightarrow> string \<Rightarrow> 'a ndarray \<Rightarrow> bool"

definition create_dataset ::
  "'a h5py \<Rightarrow> 'a h5file \<Rightarrow> string \<Rightarrow> 'a ndarray \<Rightarrow> error + 'a h5file" where
  "create_dataset refuses f name arr =
     (if refuses f name arr then Inl (H5Error name) else Inr (f @ [(name, arr)]))"

text \<open>
  The state of \<open>export_data\<close> from line 76 on: the flat dictionary \<open>d\<close> (field
  \<open>flat_d\<close>), the file \<open>f\<close> (field \<open>file_f\<close>) and the logger.
\<close>

record 'a hdf5_state = logger +
  flat_d :: "'a ndarray pydict"
  file_f :: "'a h5file"

text \<open>\<open>'_'.join(item.split('.'))\<close>, line 80.\<close>

definition tempname :: "string \<Rightarrow> string" where
  "tempname item = str_join ''_'' (str_split item ''.'')"

text \<open>
  The body of the loop, lines 80 to 89, for one key \<open>item\<close>. The result is the
  exception raised, if any, and the state at that point.
\<close>

definition export_item ::
  "'a h5py \<Rightarrow> 'a hdf5_state \<Rightarrow> string \<Rightarrow> error option \<times> 'a hdf5_state" where
  "export_item refuses s item =
     (case map_of (flat_d s) item of
        None \<Rightarrow> (Some (KeyError item), s)
      | Some arr \<Rightarrow>
          if dtype arr = ObjectT then
            (None, s\<lparr>records := records s @
                       [(WARNING, item @ '' has dtype object, will not write to file'')],
                     flat_d := AList.delete item (flat_d s)\<rparr>)
          else
            (case getitem0_dtype arr of
               Inl e \<Rightarrow> (Some e, s)
             | Inr t \<Rightarrow>
                 if CHR ''U'' \<in> set (dtype_str t) then (None, s)
                 else
                   (case create_dataset refuses (file_f s) (''/'' @ tempname item) arr of
                      Inl e \<Rightarrow> (Some e, s)
                    | Inr f' \<Rightarrow> (None, s\<lparr>file_f := f'\<rparr>))))"

text \<open>
  \<open>for item in d.keys()\<close>: \<open>FlatDict.keys()\<close> returns a new list, so the loop runs over
  the keys present before the first deletion. An exception ends the loop.
\<close>

fun export_loop ::
  "'a h5py \<Rightarrow> 'a hdf5_state \<Rightarrow> string list \<Rightarrow> error option \<times> 'a hdf5_state" where
  "export_loop refuses s [] = (None, s)"
| "export_loop refuses s (item # items) =
     (case export_item refuses s item of
        (Some e, s') \<Rightarrow> (Some e, s')
      | (None, s') \<Rightarrow> export_loop refuses s' items)"

text \<open>
  \<open>export_data\<close> from the flat dictionary on (lines 76 to 90); the logger starts with
  the records \<open>lg\<close> emitted before the call.
\<close>

definition export_data ::
  "'a h5py \<Rightarrow> (level \<times> string) list \<Rightarrow> 'a ndarray pydict \<Rightarrow> error option \<times> 'a hdf5_state" where
  "export_data refuses lg flat =
     export_loop refuses \<lparr>records = lg, flat_d = flat, file_f = []\<rparr> (keys flat)"

section \<open>openpnm/geometry/_imported.py\<close>

text \<open>\<open>ImportedSettings\<close> and its defaults (lines 31 to 35).\<close>

record settings =
  pore_diameter :: string
  throat_diameter :: string
  pore_shape :: string
  throat_shape :: string
  exclude_props :: "string list"

definition ImportedSettings :: settings where
  "ImportedSettings =
     \<lparr>pore_diameter = ''extended_diameter'', throat_diameter = ''inscribed_diameter'',
      pore_shape = ''cone'', throat_shape = ''cylinder'', exclude_props = []\<rparr>"

text \<open>
  The four modules of \<open>openpnm.models.geometry\<close> that the constructor reads with
  \<open>getattr\<close>, each as the map from attribute name to the callable it holds. The models
  package is not part of the two files; it is a parameter.
\<close>

record 'm geometry_models =
  throat_length :: "string \<rightharpoonup> 'm"
  throat_volume :: "string \<rightharpoonup> 'm"
  diffusive_size_factors :: "string \<rightharpoonup> 'm"
  hydraulic_size_factors :: "string \<rightharpoonup> 'm"

definition getattr :: "(string \<rightharpoonup> 'm) \<Rightarrow> string \<Rightarrow> error + 'm" where
  "getattr module name =
     (case module name of None \<Rightarrow> Inl (AttributeError name) | Some m \<Rightarrow> Inr m)"

text \<open>
  The state of the constructor: the network's dictionary, the geometry's own dictionary
  (\<open>self\<close>), the models registered on the geometry, and the logger. A registration is
  the property name, the callable and the keyword arguments naming its inputs.
\<close>

type_synonym 'm registration = "string \<times> 'm \<times> (string \<times> string) list"

record ('a, 'm) imported_state = logger +
  network :: "'a ndarray pydict"
  self :: "'a ndarray pydict"
  models :: "'m registration list"

text \<open>
  Modelled from the spec: \<open>props()\<close> of the network, which is not among the source
  files. It enumerates the property keys; a property is an array that is not
  boolean-valued (boolean arrays are labels, which the class documentation says are not
  transferred).
\<close>

definition props :: "'a ndarray pydict \<Rightarrow> string list" where
  "props net = map fst (filter (\<lambda>(k, arr). dtype arr \<noteq> BoolT) net)"

text \<open>
  Modelled from the spec: \<open>add_model(propname, model, **kwargs)\<close> of the geometry, which
  is not among the source files. It registers a lazily evaluated derived property: the
  registration is recorded and no array is computed.
\<close>

definition add_model ::
  "('a, 'm) imported_state \<Rightarrow> string \<Rightarrow> 'm \<Rightarrow> (string \<times> string) list \<Rightarrow> ('a, 'm) imported_state" where
  "add_model s propname m kwargs = s\<lparr>models := models s @ [(propname, m, kwargs)]\<rparr>"

text \<open>
  Lines 81 to 83, over the list \<open>network.props()\<close> returned before the loop:
  \<open>self[item] = network.pop(item)\<close> for every item not in \<open>exclude\<close>. The right-hand
  side is evaluated first; \<open>pop\<close> raises \<open>KeyError\<close> on a key the network does not hold.
\<close>

fun transfer ::
  "string list \<Rightarrow> ('a, 'm) imported_state \<Rightarrow> string list \<Rightarrow> error option \<times> ('a, 'm) imported_state" where
  "transfer exclude s [] = (None, s)"
| "transfer exclude s (item # items) =
     (if item \<notin> set exclude then
        (case pop (network s) item of
           Inl e \<Rightarrow> (Some e, s)
         | Inr (v, net') \<Rightarrow>
             transfer exclude (s\<lparr>network := net', self := AList.update item v (self s)\<rparr>) items)
      else transfer exclude s items)"

text \<open>Line 80: the list \<open>exclude\<close> after \<open>extend\<close>.\<close>

definition exclude_list :: "settings \<Rightarrow> string list" where
  "exclude_list st = exclude_props st @ [''pore.coords'', ''throat.conns'', ''pore.region_label'']"

text \<open>
  Lines 88 and 107: \<open>prefix + setting.split(prefix)[-1]\<close>. \<open>split\<close> never returns an
  empty list, so \<open>[-1]\<close> is its last piece.
\<close>

definition alias_key :: "string \<Rightarrow> string \<Rightarrow> string" where
  "alias_key prefix setting = prefix @ last (str_split setting prefix)"

text \<open>
  \<open>self[key]\<close> on the geometry is \<open>GenericGeometry.__getitem__\<close>, which is not among
  the source files and need not be a plain dictionary lookup (a geometry may answer from
  its network). It is a parameter: \<open>getitem g n key\<close> is the array that \<open>self[key]\<close>
  returns when the geometry's dictionary is \<open>g\<close> and the network's is \<open>n\<close>, and
  \<open>None\<close> where it raises \<open>KeyError\<close>. Everything below holds for every such function.
\<close>

type_synonym 'a getitem =
  "'a ndarray pydict \<Rightarrow> 'a ndarray pydict \<Rightarrow> string \<Rightarrow> 'a ndarray option"

text \<open>
  Lines 87 to 92 and 106 to 111, for \<open>element\<close> being \<open>pore\<close> or \<open>throat\<close>: when
  \<open>element.diameter\<close> is not a key of the geometry, it is assigned \<open>self[alias]\<close>; the
  \<open>KeyError\<close> of an alias that cannot be read is caught and logged.
\<close>

definition assign_diameter ::
  "'a getitem \<Rightarrow> string \<Rightarrow> string \<Rightarrow> ('a, 'm) imported_state \<Rightarrow> ('a, 'm) imported_state" where
  "assign_diameter getitem element setting s =
     (if element @ ''.diameter'' \<notin> set (keys (self s)) then
        (let dia = alias_key (element @ ''.'') setting in
         case getitem (self s) (network s) dia of
           Some v \<Rightarrow> s\<lparr>self := AList.update (element @ ''.diameter'') v (self s)\<rparr>
         | None \<Rightarrow>
             s\<lparr>records := records s @
                  [(ERROR, dia @ '' not found, can'' @ [CHR 0x27] @ ''t assign '' @
                           [CHR 0x27] @ element @ ''.diameter'' @ [CHR 0x27])]\<rparr>)
      else s)"

text \<open>Lines 113, 114, 116: the attribute name built from the two shapes.\<close>

definition shape_pair :: "settings \<Rightarrow> string" where
  "shape_pair st = (pore_shape st @ ''s'') @ ''_and_'' @ (throat_shape st @ ''s'')"

text \<open>
  Lines 115 to 132, one definition for each registration. \<open>getattr\<close> is evaluated
  before \<open>add_model\<close>, so a missing attribute raises with nothing registered by that step.
\<close>

definition register_throat_length ::
  "'m geometry_models \<Rightarrow> settings \<Rightarrow> ('a, 'm) imported_state \<Rightarrow> error option \<times> ('a, 'm) imported_state" where
  "register_throat_length mods st s =
     (if ''throat.length'' \<notin> set (keys (self s)) then
        (case getattr (throat_length mods) (shape_pair st) of
           Inl e \<Rightarrow> (Some e, s)
         | Inr m \<Rightarrow>
             (None, add_model s ''throat.length'' m
                      [(''throat_diameter'', ''throat.diameter''),
                       (''pore_diameter'', ''pore.diameter'')]))
      else (None, s))"

definition register_throat_volume ::
  "'m geometry_models \<Rightarrow> settings \<Rightarrow> ('a, 'm) imported_state \<Rightarrow> error option \<times> ('a, 'm) imported_state" where
  "register_throat_volume mods st s =
     (if ''throat.volume'' \<notin> set (keys (self s)) then
        (case getattr (throat_volume mods) (throat_shape st) of
           Inl e \<Rightarrow> (Some e, s)
         | Inr m \<Rightarrow>
             (None, add_model s ''throat.volume'' m
                      [(''throat_length'', ''throat.length''),
                       (''throat_diameter'', ''throat.diameter'')]))
      else (None, s))"

definition register_diffusive ::
  "'m geometry_models \<Rightarrow> settings \<Rightarrow> ('a, 'm) imported_state \<Rightarrow> error option \<times> ('a, 'm) imported_state" where
  "register_diffusive mods st s =
     (case getattr (diffusive_size_factors mods) (shape_pair st) of
        Inl e \<Rightarrow> (Some e, s)
      | Inr m \<Rightarrow> (None, add_model s ''throat.diffusive_size_factors'' m []))"

definition register_hydraulic ::
  "'m geometry_models \<Rightarrow> settings \<Rightarrow> ('a, 'm) imported_state \<Rightarrow> error option \<times> ('a, 'm) imported_state" where
  "register_hydraulic mods st s =
     (case getattr (hydraulic_size_factors mods) (shape_pair st) of
        Inl e \<Rightarrow> (Some e, s)
      | Inr m \<Rightarrow> (None, add_model s ''throat.hydraulic_size_factors'' m []))"

text \<open>Sequencing: the next statement runs only when the previous one did not raise.\<close>

definition and_then ::
  "error option \<times> 's \<Rightarrow> ('s \<Rightarrow> error option \<times> 's) \<Rightarrow> error option \<times> 's" where
  "and_then r step = (case r of (Some e, s) \<Rightarrow> (Some e, s) | (None, s) \<Rightarrow> step s)"

definition register_models ::
  "'m geometry_models \<Rightarrow> settings \<Rightarrow> ('a, 'm) imported_state \<Rightarrow> error option \<times> ('a, 'm) imported_state" where
  "register_models mods st s =
     and_then (and_then (and_then (register_throat_length mods st s)
                                  (register_throat_volume mods st))
                        (register_diffusive mods st))
              (register_hydraulic mods st)"

text \<open>
  Lines 79 to 92 and 106 to 111: the transfer, then the two diameters. The state starts
  from the network's dictionary \<open>net\<close> and the dictionary \<open>geo\<close> that the geometry holds
  when \<open>super().__init__\<close> returns, with the records \<open>lg\<close> logged so far.
\<close>

definition transfer_props ::
  "settings \<Rightarrow> (level \<times> string) list \<Rightarrow> 'a ndarray pydict \<Rightarrow> 'a ndarray pydict \<Rightarrow>
     error option \<times> ('a, 'm) imported_state" where
  "transfer_props st lg net geo =
     transfer (exclude_list st) \<lparr>records = lg, network = net, self = geo, models = []\<rparr> (props net)"

definition assign_diameters ::
  "'a getitem \<Rightarrow> settings \<Rightarrow> ('a, 'm) imported_state \<Rightarrow> ('a, 'm) imported_state" where
  "assign_diameters getitem st s =
     assign_diameter getitem ''throat'' (throat_diameter st)
       (assign_diameter getitem ''pore'' (pore_diameter st) s)"

text \<open>\<open>Imported.__init__\<close> from line 79 on.\<close>

definition Imported_init ::
  "'a getitem \<Rightarrow> 'm geometry_models \<Rightarrow> settings \<Rightarrow> (level \<times> string) list \<Rightarrow>
     'a ndarray pydict \<Rightarrow> 'a ndarray pydict \<Rightarrow> error option \<times> ('a, 'm) imported_state" where
  "Imported_init getitem mods st lg net geo =
     and_then (transfer_props st lg net geo)
       (\<lambda>s. register_models mods st (assign_diameters getitem st s))"

section \<open>Lemmas about strings and element types\<close>

lemma split_from_not_Nil: "split_from sep acc s \<noteq> []"
  by (induction sep acc s rule: split_from.induct) auto

lemma str_join_Cons: "xs \<noteq> [] \<Longrightarrow> str_join j (x # xs) = x @ j @ str_join j xs"
  by (cases xs) auto

lemma split_from_acc:
  "split_from sep acc s = (rev acc @ hd (split_from sep [] s)) # tl (split_from sep [] s)"
proof (induction s arbitrary: acc)
  case Nil
  then show ?case by simp
next
  case (Cons c cs)
  show ?case
  proof (cases "take (length sep) (c # cs) = sep")
    case True
    then show ?thesis by simp
  next
    case False
    then show ?thesis using Cons[of "c # acc"] Cons[of "[c]"] by simp
  qed
qed

lemma tempname_map: "tempname p = map (\<lambda>c. if c = CHR ''.'' then CHR ''_'' else c) p"
proof -
  have "str_join ''_'' (split_from ''.'' [] p) = map (\<lambda>c. if c = CHR ''.'' then CHR ''_'' else c) p"
  proof (induction p)
    case Nil
    then show ?case by simp
  next
    case (Cons c cs)
    show ?case
    proof (cases "c = CHR ''.''")
      case True
      then show ?thesis using Cons by (simp add: str_join_Cons split_from_not_Nil)
    next
      case False
      have "split_from ''.'' [c] cs = ([c] @ hd (split_from ''.'' [] cs)) # tl (split_from ''.'' [] cs)"
        using split_from_acc[of "''.''" "[c]" cs] by simp
      also have "\<dots> = (c # hd (split_from ''.'' [] cs)) # tl (split_from ''.'' [] cs)" by simp
      finally have e: "split_from ''.'' [c] cs = (c # hd (split_from ''.'' [] cs)) # tl (split_from ''.'' [] cs)" .
      have j: "str_join ''_'' ((c # x) # xs) = c # str_join ''_'' (x # xs)" for x xs
        by (cases xs) auto
      have "split_from ''.'' [] cs = hd (split_from ''.'' [] cs) # tl (split_from ''.'' [] cs)"
        using split_from_not_Nil[of "''.''" "[]" cs] by simp
      then have "str_join ''_'' (split_from ''.'' [c] cs) = c # str_join ''_'' (split_from ''.'' [] cs)"
        using e j by metis
      then show ?thesis using False Cons by simp
    qed
  qed
  then show ?thesis by (simp add: tempname_def str_split_def)
qed

lemma split_from_prefix:
  assumes "sep \<noteq> []"
  shows "split_from sep [] (sep @ s) = [] # split_from sep [] s"
proof -
  obtain c cs where sep: "sep = c # cs" using assms by (cases sep) auto
  show ?thesis by (simp add: sep)
qed

lemma alias_key_prefix:
  assumes "pre \<noteq> []"
  shows "alias_key pre (pre @ v) = alias_key pre v"
  using assms by (simp add: alias_key_def str_split_def split_from_prefix split_from_not_Nil)

lemma last_split_from:
  assumes "sep \<noteq> []"
    and "\<forall>i < length acc. take (length sep) (drop i (rev acc @ s)) \<noteq> sep"
  shows "(\<forall>i. take (length sep) (drop i (last (split_from sep acc s))) \<noteq> sep) \<and>
         (last (split_from sep acc s) = rev acc @ s \<or>
          (\<exists>u. rev acc @ s = u @ sep @ last (split_from sep acc s)))"
  using assms(2)
proof (induction "length s" arbitrary: s acc rule: less_induct)
  case less
  show ?case
  proof (cases s)
    case Nil
    have "take (length sep) (drop i (rev acc)) \<noteq> sep" for i
    proof (cases "i < length acc")
      case True
      then show ?thesis using less.prems Nil by simp
    next
      case False
      then show ?thesis using assms(1) by auto
    qed
    then show ?thesis using Nil by simp
  next
    case (Cons c cs)
    show ?thesis
    proof (cases "take (length sep) (c # cs) = sep")
      case True
      let ?rest = "drop (length sep - 1) cs"
      have s_eq: "s = sep @ ?rest"
      proof -
        have "s = take (length sep) s @ drop (length sep) s" by simp
        moreover have "drop (length sep) s = ?rest" using Cons assms(1) by (cases sep) auto
        ultimately show ?thesis using True Cons by simp
      qed
      have len: "length ?rest < length s" using Cons by simp
      have ih: "(\<forall>i. take (length sep) (drop i (last (split_from sep [] ?rest))) \<noteq> sep) \<and>
         (last (split_from sep [] ?rest) = rev [] @ ?rest \<or>
          (\<exists>u. rev [] @ ?rest = u @ sep @ last (split_from sep [] ?rest)))"
        using less.hyps[OF len, of "[]"] by simp
      have l: "last (split_from sep acc s) = last (split_from sep [] ?rest)"
        using True Cons by (simp add: split_from_not_Nil)
      have "\<exists>u. rev acc @ s = u @ sep @ last (split_from sep [] ?rest)"
      proof (cases "last (split_from sep [] ?rest) = ?rest")
        case True
        then show ?thesis using s_eq by (metis append_assoc)
      next
        case False
        then obtain u where "?rest = u @ sep @ last (split_from sep [] ?rest)" using ih by auto
        then have "rev acc @ s = (rev acc @ sep @ u) @ sep @ last (split_from sep [] ?rest)"
          using s_eq by (metis append_assoc)
        then show ?thesis by blast
      qed
      then show ?thesis using ih l by simp
    next
      case False
      have pre: "\<forall>i < length (c # acc). take (length sep) (drop i (rev (c # acc) @ cs)) \<noteq> sep"
      proof (intro allI impI)
        fix i assume i: "i < length (c # acc)"
        show "take (length sep) (drop i (rev (c # acc) @ cs)) \<noteq> sep"
        proof (cases "i < length acc")
          case True
          then show ?thesis using less.prems Cons by simp
        next
          case False
          then have "i = length acc" using i by simp
          then show ?thesis using \<open>take (length sep) (c # cs) \<noteq> sep\<close> by simp
        qed
      qed
      have len: "length cs < length s" using Cons by simp
      show ?thesis using less.hyps[OF len pre] False Cons by simp
    qed
  qed
qed

lemma alias_key_last_occurrence:
  assumes "pre \<noteq> []"
  shows "\<exists>r. alias_key pre v = pre @ r \<and>
             (\<forall>i. take (length pre) (drop i r) \<noteq> pre) \<and>
             (r = v \<or> (\<exists>u. v = u @ pre @ r))"
  using last_split_from[OF assms, of "[]" v]
  by (simp add: alias_key_def str_split_def)

lemma digit_not_U: "k < 10 \<Longrightarrow> ''0123456789'' ! k \<noteq> CHR ''U''"
proof -
  assume "k < 10"
  then have "k \<in> {0,1,2,3,4,5,6,7,8,9}" by auto
  then show ?thesis by auto
qed

lemma str_nat_no_U: "CHR ''U'' \<notin> set (str_nat n)"
proof (induction n rule: str_nat.induct)
  case (1 n)
  show ?case
  proof (cases "n < 10")
    case True
    then show ?thesis using digit_not_U[of n] by (subst str_nat.simps) simp
  next
    case False
    have "n mod 10 < 10" by simp
    then show ?thesis using 1[OF False] False digit_not_U[of "n mod 10"]
      by (subst str_nat.simps) simp
  qed
qed

lemma U_in_dtype_str: "CHR ''U'' \<in> set (dtype_str t) \<longleftrightarrow> t \<in> range UnicodeT"
  by (cases t) (auto simp: str_nat_no_U)

section \<open>Lemmas about the export loop\<close>

lemma export_item_Some:
  assumes "map_of (flat_d s) k = Some a"
  shows "export_item refuses s k =
   (if dtype a = ObjectT then
      (None, s\<lparr>records := records s @ [(WARNING, k @ '' has dtype object, will not write to file'')],
               flat_d := AList.delete k (flat_d s)\<rparr>)
    else if (case shape a of [] \<Rightarrow> True | n # _ \<Rightarrow> n = 0) then (Some IndexError, s)
    else if dtype a \<in> range UnicodeT then (None, s)
    else if refuses (file_f s) (''/'' @ tempname k) a then (Some (H5Error (''/'' @ tempname k)), s)
    else (None, s\<lparr>file_f := file_f s @ [(''/'' @ tempname k, a)]\<rparr>))"
  using assms
  by (auto simp: export_item_def getitem0_dtype_def create_dataset_def U_in_dtype_str
           split: list.splits)

lemma export_item_keeps:
  assumes "map_of (flat_d s) k = Some a" and "export_item refuses s k = (None, s1)"
    and "k' \<noteq> k"
  shows "map_of (flat_d s1) k' = map_of (flat_d s) k'"
  using assms(2,3) unfolding export_item_Some[OF assms(1)]
  by (auto split: if_splits)

lemma entries_step:
  assumes "distinct (map fst ((k, a) # es))"
    and "\<forall>(k', a') \<in> set ((k, a) # es). map_of (flat_d s) k' = Some a'"
    and "export_item refuses s k = (None, s1)"
  shows "\<forall>(k', a') \<in> set es. map_of (flat_d s1) k' = Some a'"
proof -
  have ka: "map_of (flat_d s) k = Some a" using assms(2) by simp
  show ?thesis
  proof (clarify)
    fix k' a' assume m: "(k', a') \<in> set es"
    then have "k' \<noteq> k" using assms(1) by force
    then show "map_of (flat_d s1) k' = Some a'"
      using export_item_keeps[OF ka assms(3)] assms(2) m by auto
  qed
qed

lemma export_loop_file_sources:
  assumes "distinct (map fst es)"
    and "\<forall>(k, a) \<in> set es. map_of (flat_d s) k = Some a"
    and "export_loop refuses s (map fst es) = (exc, s')"
  shows "\<forall>(n, a) \<in> set (file_f s'). (n, a) \<in> set (file_f s) \<or>
           (\<exists>k. (k, a) \<in> set es \<and> n = ''/'' @ tempname k \<and> dtype a \<noteq> ObjectT \<and>
                dtype a \<notin> range UnicodeT \<and> (\<exists>m ms. shape a = m # ms \<and> 0 < m))"
  using assms
proof (induction es arbitrary: s)
  case Nil
  then show ?case by auto
next
  case (Cons e es)
  obtain k a where e: "e = (k, a)" by (cases e)
  have ka: "map_of (flat_d s) k = Some a" using Cons.prems(2) e by simp
  obtain x s1 where it: "export_item refuses s k = (x, s1)" by (cases "export_item refuses s k")
  show ?case
  proof (cases x)
    case None
    have d: "distinct (map fst es)" using Cons.prems(1) by simp
    have m: "\<forall>(k', a') \<in> set es. map_of (flat_d s1) k' = Some a'"
      using entries_step[of k a es s refuses s1] Cons.prems(1,2) it None e by simp
    have l: "export_loop refuses s1 (map fst es) = (exc, s')"
      using Cons.prems(3) it None e by simp
    have ih: "\<forall>(n, a) \<in> set (file_f s'). (n, a) \<in> set (file_f s1) \<or>
           (\<exists>k. (k, a) \<in> set es \<and> n = ''/'' @ tempname k \<and> dtype a \<noteq> ObjectT \<and>
                dtype a \<notin> range UnicodeT \<and> (\<exists>m ms. shape a = m # ms \<and> 0 < m))"
      using Cons.IH[OF d m l] .
    have s1: "\<forall>(n, b) \<in> set (file_f s1). (n, b) \<in> set (file_f s) \<or>
        (b = a \<and> n = ''/'' @ tempname k \<and> dtype a \<noteq> ObjectT \<and>
                dtype a \<notin> range UnicodeT \<and> (\<exists>m ms. shape a = m # ms \<and> 0 < m))"
      using it None unfolding export_item_Some[OF ka]
      by (auto split: if_splits list.splits)
    show ?thesis using ih s1 e by fastforce
  next
    case (Some err)
    then have "s' = s1" using Cons.prems(3) it e by simp
    moreover have "s1 = s" using it Some unfolding export_item_Some[OF ka] by (auto split: if_splits)
    ultimately show ?thesis by auto
  qed
qed

lemma export_loop_step:
  assumes "distinct (map fst ((k, a) # es))"
    and "\<forall>(k', a') \<in> set ((k, a) # es). map_of (flat_d s) k' = Some a'"
    and "export_loop refuses s (map fst ((k, a) # es)) = (exc, s')"
  obtains (raised) e where "export_item refuses s k = (Some e, s)" and "exc = Some e" and "s' = s"
  | (continued) s1 where "export_item refuses s k = (None, s1)"
      and "distinct (map fst es)"
      and "\<forall>(k', a') \<in> set es. map_of (flat_d s1) k' = Some a'"
      and "export_loop refuses s1 (map fst es) = (exc, s')"
proof -
  have ka: "map_of (flat_d s) k = Some a" using assms(2) by simp
  obtain x s1 where it: "export_item refuses s k = (x, s1)" by (cases "export_item refuses s k")
  show thesis
  proof (cases x)
    case None
    have "\<forall>(k', a') \<in> set es. map_of (flat_d s1) k' = Some a'"
      using entries_step[OF assms(1,2)] it None by simp
    moreover have "export_loop refuses s1 (map fst es) = (exc, s')"
      using assms(3) it None by simp
    moreover have "distinct (map fst es)" using assms(1) by simp
    ultimately show thesis using continued it None by blast
  next
    case (Some err)
    have "s1 = s" using it Some unfolding export_item_Some[OF ka] by (auto split: if_splits)
    moreover have "exc = Some err \<and> s' = s1" using assms(3) it Some by simp
    ultimately show thesis using raised it Some by blast
  qed
qed

lemma export_loop_completed:
  assumes "distinct (map fst es)"
    and "\<forall>(k, a) \<in> set es. map_of (flat_d s) k = Some a"
    and "export_loop refuses s (map fst es) = (None, s')"
  shows "file_f s' = file_f s @ map (\<lambda>(k, a). (''/'' @ tempname k, a))
                       (filter (\<lambda>(k, a). dtype a \<noteq> ObjectT \<and> dtype a \<notin> range UnicodeT) es) \<and>
         records s' = records s @ map (\<lambda>(k, a). (WARNING, k @ '' has dtype object, will not write to file''))
                       (filter (\<lambda>(k, a). dtype a = ObjectT) es)"
  using assms
proof (induction es arbitrary: s)
  case Nil
  then show ?case by simp
next
  case (Cons e es)
  obtain k a where e: "e = (k, a)" by (cases e)
  have ka: "map_of (flat_d s) k = Some a" using Cons.prems(2) e by simp
  have p1: "distinct (map fst ((k, a) # es))" using Cons.prems(1) e by simp
  have p2: "\<forall>(k', a') \<in> set ((k, a) # es). map_of (flat_d s) k' = Some a'"
    using Cons.prems(2) e by simp
  have p3: "export_loop refuses s (map fst ((k, a) # es)) = (None, s')"
    using Cons.prems(3) e by simp
  from p1 p2 p3 show ?case
  proof (cases rule: export_loop_step)
    case (raised err)
    then show ?thesis by simp
  next
    case (continued s1)
    note ih = Cons.IH[OF continued(2,3,4)]
    have "(dtype a = ObjectT \<and> file_f s1 = file_f s \<and>
            records s1 = records s @ [(WARNING, k @ '' has dtype object, will not write to file'')]) \<or>
          (dtype a \<noteq> ObjectT \<and> dtype a \<in> range UnicodeT \<and> file_f s1 = file_f s \<and> records s1 = records s) \<or>
          (dtype a \<noteq> ObjectT \<and> dtype a \<notin> range UnicodeT \<and>
             file_f s1 = file_f s @ [(''/'' @ tempname k, a)] \<and> records s1 = records s)"
      using continued(1) unfolding export_item_Some[OF ka] by (auto split: if_splits)
    then show ?thesis using ih e by auto
  qed
qed

lemma export_loop_exceptions:
  assumes "distinct (map fst es)"
    and "\<forall>(k, a) \<in> set es. map_of (flat_d s) k = Some a"
    and "export_loop refuses s (map fst es) = (exc, s')"
  shows "exc = None \<or>
         (exc = Some IndexError \<and>
            (\<exists>(k, a) \<in> set es. dtype a \<noteq> ObjectT \<and> (shape a = [] \<or> (\<exists>ns. shape a = 0 # ns)))) \<or>
         (\<exists>k fl a. exc = Some (H5Error (''/'' @ tempname k)) \<and> (k, a) \<in> set es \<and>
            refuses fl (''/'' @ tempname k) a)"
  using assms
proof (induction es arbitrary: s)
  case Nil
  then show ?case by simp
next
  case (Cons e es)
  obtain k a where e: "e = (k, a)" by (cases e)
  have ka: "map_of (flat_d s) k = Some a" using Cons.prems(2) e by simp
  have p1: "distinct (map fst ((k, a) # es))" using Cons.prems(1) e by simp
  have p2: "\<forall>(k', a') \<in> set ((k, a) # es). map_of (flat_d s) k' = Some a'"
    using Cons.prems(2) e by simp
  have p3: "export_loop refuses s (map fst ((k, a) # es)) = (exc, s')"
    using Cons.prems(3) e by simp
  from p1 p2 p3 show ?case
  proof (cases rule: export_loop_step)
    case (raised err)
    have "(err = IndexError \<and> dtype a \<noteq> ObjectT \<and> (shape a = [] \<or> (\<exists>ns. shape a = 0 # ns))) \<or>
          (err = H5Error (''/'' @ tempname k) \<and> refuses (file_f s) (''/'' @ tempname k) a)"
      using raised(1) unfolding export_item_Some[OF ka] by (auto split: if_splits list.splits)
    then show ?thesis using raised(2) e by auto
  next
    case (continued s1)
    show ?thesis using Cons.IH[OF continued(2,3,4)] e by auto
  qed
qed

lemma export_loop_empty_raises:
  assumes "distinct (map fst es)"
    and "\<forall>(k, a) \<in> set es. map_of (flat_d s) k = Some a"
    and "export_loop refuses s (map fst es) = (exc, s')"
    and "(k, a) \<in> set es" and "dtype a \<noteq> ObjectT" and "shape a = [] \<or> (\<exists>ns. shape a = 0 # ns)"
  shows "exc \<noteq> None"
  using assms(1,2,3,4)
proof (induction es arbitrary: s)
  case Nil
  then show ?case by simp
next
  case (Cons e es)
  obtain k0 a0 where e: "e = (k0, a0)" by (cases e)
  have ka: "map_of (flat_d s) k0 = Some a0" using Cons.prems(2) e by simp
  have p1: "distinct (map fst ((k0, a0) # es))" using Cons.prems(1) e by simp
  have p2: "\<forall>(k', a') \<in> set ((k0, a0) # es). map_of (flat_d s) k' = Some a'"
    using Cons.prems(2) e by simp
  have p3: "export_loop refuses s (map fst ((k0, a0) # es)) = (exc, s')"
    using Cons.prems(3) e by simp
  from p1 p2 p3 show ?case
  proof (cases rule: export_loop_step)
    case (raised err)
    then show ?thesis by simp
  next
    case (continued s1)
    have "(k0, a0) \<noteq> (k, a)"
    proof
      assume "(k0, a0) = (k, a)"
      then have "export_item refuses s k0 \<noteq> (None, s1)"
        using assms(5,6) unfolding export_item_Some[OF ka] by (auto split: list.splits)
      then show False using continued(1) by simp
    qed
    then have "(k, a) \<in> set es" using Cons.prems(4) e by auto
    then show ?thesis using Cons.IH[OF continued(2,3,4)] by simp
  qed
qed

lemma export_loop_records:
  assumes "distinct (map fst es)"
    and "\<forall>(k, a) \<in> set es. map_of (flat_d s) k = Some a"
    and "export_loop refuses s (map fst es) = (exc, s')"
  shows "\<exists>n. records s' = records s @ map (\<lambda>(k, a). (WARNING, k @ '' has dtype object, will not write to file''))
                       (filter (\<lambda>(k, a). dtype a = ObjectT) (take n es))"
  using assms
proof (induction es arbitrary: s)
  case Nil
  then show ?case by simp
next
  case (Cons e es)
  obtain k a where e: "e = (k, a)" by (cases e)
  have ka: "map_of (flat_d s) k = Some a" using Cons.prems(2) e by simp
  have p1: "distinct (map fst ((k, a) # es))" using Cons.prems(1) e by simp
  have p2: "\<forall>(k', a') \<in> set ((k, a) # es). map_of (flat_d s) k' = Some a'"
    using Cons.prems(2) e by simp
  have p3: "export_loop refuses s (map fst ((k, a) # es)) = (exc, s')"
    using Cons.prems(3) e by simp
  from p1 p2 p3 show ?case
  proof (cases rule: export_loop_step)
    case (raised err)
    then show ?thesis by (intro exI[of _ 0]) simp
  next
    case (continued s1)
    obtain n where n: "records s' = records s1 @ map (\<lambda>(k, a). (WARNING, k @ '' has dtype object, will not write to file''))
                       (filter (\<lambda>(k, a). dtype a = ObjectT) (take n es))"
      using Cons.IH[OF continued(2,3,4)] by blast
    have "records s1 = records s @ map (\<lambda>(k, a). (WARNING, k @ '' has dtype object, will not write to file''))
                       (filter (\<lambda>(k, a). dtype a = ObjectT) [(k, a)])"
      using continued(1) unfolding export_item_Some[OF ka] by (auto split: if_splits)
    then show ?thesis using n e by (intro exI[of _ "Suc n"]) simp
  qed
qed

lemma flat_entries:
  assumes "distinct (map fst flat)"
  shows "\<forall>(k, a) \<in> set flat. map_of (flat_d \<lparr>records = lg, flat_d = flat, file_f = []\<rparr>) k = Some a"
  using assms by auto

section \<open>Claims about \<open>export_data\<close>\<close>

text \<open>
  C1. For every entry of the flat dictionary whose array has object dtype,
  \<open>export_data\<close> logs a warning naming the path and creates no dataset for it; the other
  entries are still processed. In the model: whatever happens, no dataset of the file
  holds an array of object dtype; and when the loop runs to its end, the log has gained
  exactly one warning for each object entry, in order, and the file holds exactly the
  entries that are neither of object nor of text dtype, each under its sanitized name.
\<close>

theorem export_data_object_leaves:
  assumes "distinct (map fst flat)" and "export_data refuses lg flat = (exc, s)"
  shows "(\<forall>(n, a) \<in> set (file_f s). dtype a \<noteq> ObjectT) \<and>
         (exc = None \<longrightarrow>
            records s = lg @ map (\<lambda>(k, a). (WARNING, k @ '' has dtype object, will not write to file''))
                               (filter (\<lambda>(k, a). dtype a = ObjectT) flat) \<and>
            file_f s = map (\<lambda>(k, a). (''/'' @ tempname k, a))
                         (filter (\<lambda>(k, a). dtype a \<noteq> ObjectT \<and> dtype a \<notin> range UnicodeT) flat))"
proof -
  let ?s0 = "\<lparr>records = lg, flat_d = flat, file_f = []\<rparr>"
  have l: "export_loop refuses ?s0 (map fst flat) = (exc, s)"
    using assms(2) by (simp add: export_data_def keys_def)
  note en = flat_entries[OF assms(1), of lg]
  have "\<forall>(n, a) \<in> set (file_f s). dtype a \<noteq> ObjectT"
    using export_loop_file_sources[OF assms(1) en l] by fastforce
  moreover have "exc = None \<longrightarrow>
            records s = lg @ map (\<lambda>(k, a). (WARNING, k @ '' has dtype object, will not write to file''))
                               (filter (\<lambda>(k, a). dtype a = ObjectT) flat) \<and>
            file_f s = map (\<lambda>(k, a). (''/'' @ tempname k, a))
                         (filter (\<lambda>(k, a). dtype a \<noteq> ObjectT \<and> dtype a \<notin> range UnicodeT) flat)"
  proof
    assume "exc = None"
    then show "records s = lg @ map (\<lambda>(k, a). (WARNING, k @ '' has dtype object, will not write to file''))
                               (filter (\<lambda>(k, a). dtype a = ObjectT) flat) \<and>
            file_f s = map (\<lambda>(k, a). (''/'' @ tempname k, a))
                         (filter (\<lambda>(k, a). dtype a \<noteq> ObjectT \<and> dtype a \<notin> range UnicodeT) flat)"
      using export_loop_completed[OF assms(1) en, of refuses s] l by simp
  qed
  ultimately show ?thesis by blast
qed

theorem export_data_object_leaves_witness:
  "distinct (map fst
     [(''net/pore.info'', \<lparr>dtype = ObjectT, shape = [2], data = [0, 1 :: nat]\<rparr>),
      (''net/pore.diameter'', \<lparr>dtype = FloatT 64, shape = [2], data = [3, 4]\<rparr>)]) \<and>
   export_data (\<lambda>fl n a. False) []
     [(''net/pore.info'', \<lparr>dtype = ObjectT, shape = [2], data = [0, 1 :: nat]\<rparr>),
      (''net/pore.diameter'', \<lparr>dtype = FloatT 64, shape = [2], data = [3, 4]\<rparr>)] =
   (None, \<lparr>records = [(WARNING, ''net/pore.info has dtype object, will not write to file'')],
           flat_d = [(''net/pore.diameter'', \<lparr>dtype = FloatT 64, shape = [2], data = [3, 4]\<rparr>)],
           file_f = [(''/net/pore_diameter'', \<lparr>dtype = FloatT 64, shape = [2], data = [3, 4]\<rparr>)]\<rparr>) \<and>
   list_all (\<lambda>(n, a). dtype a \<noteq> ObjectT)
     [(''/net/pore_diameter'', \<lparr>dtype = FloatT 64, shape = [2], data = [3, 4 :: nat]\<rparr>)]"
proof -
  let ?flat = "[(''net/pore.info'', \<lparr>dtype = ObjectT, shape = [2], data = [0, 1 :: nat]\<rparr>),
      (''net/pore.diameter'', \<lparr>dtype = FloatT 64, shape = [2], data = [3, 4]\<rparr>)]"
  let ?s = "\<lparr>records = [(WARNING, ''net/pore.info has dtype object, will not write to file'')],
           flat_d = [(''net/pore.diameter'', \<lparr>dtype = FloatT 64, shape = [2], data = [3, 4 :: nat]\<rparr>)],
           file_f = [(''/net/pore_diameter'', \<lparr>dtype = FloatT 64, shape = [2], data = [3, 4]\<rparr>)]\<rparr>"
  have d: "distinct (map fst ?flat)" by simp
  have e: "export_data (\<lambda>fl n a. False) [] ?flat = (None, ?s)"
    by (simp add: export_data_def keys_def export_item_def getitem0_dtype_def
          create_dataset_def tempname_def str_split_def str_nat.simps)
  from export_data_object_leaves[OF d e] d e show ?thesis by simp
qed

text \<open>
  C2. The claim says that an entry with a fixed-width text dtype is not written and that
  a diagnostic is recorded for it. The branch of line 85 is \<open>pass\<close>: nothing is written
  and nothing is logged. Exporting a single text array leaves the log empty.
\<close>

theorem text_leaf_diagnostic_counterexample:
  "export_data (\<lambda>fl n a. False) []
     [(''net/pore.name'', \<lparr>dtype = UnicodeT 3, shape = [1], data = [''abc'']\<rparr>)] =
   (None, \<lparr>records = [],
           flat_d = [(''net/pore.name'', \<lparr>dtype = UnicodeT 3, shape = [1], data = [''abc'']\<rparr>)],
           file_f = []\<rparr>)"
  by (simp add: export_data_def keys_def export_item_def getitem0_dtype_def
        create_dataset_def tempname_def str_split_def str_nat.simps)

text \<open>
  C2, amended. An entry with a fixed-width text dtype is never written to the file and no
  diagnostic is recorded for it: no dataset of the file holds a text array, every record
  added to the log is the warning of an object entry, and at a text entry with a
  non-empty first axis the loop goes on to the next key with the state unchanged.
\<close>

theorem export_data_text_leaves:
  assumes "distinct (map fst flat)" and "export_data refuses lg flat = (exc, s)"
  shows "(\<forall>(n, a) \<in> set (file_f s). dtype a \<notin> range UnicodeT) \<and>
         (\<exists>n. records s = lg @ map (\<lambda>(k, a). (WARNING, k @ '' has dtype object, will not write to file''))
                                (filter (\<lambda>(k, a). dtype a = ObjectT) (take n flat))) \<and>
         (\<forall>s0 k ks a w m ms. map_of (flat_d s0) k = Some a \<and> dtype a = UnicodeT w \<and>
              shape a = m # ms \<and> 0 < m \<longrightarrow>
              export_loop refuses s0 (k # ks) = export_loop refuses s0 ks)"
proof -
  let ?s0 = "\<lparr>records = lg, flat_d = flat, file_f = []\<rparr>"
  have l: "export_loop refuses ?s0 (map fst flat) = (exc, s)"
    using assms(2) by (simp add: export_data_def keys_def)
  note en = flat_entries[OF assms(1), of lg]
  have a: "\<forall>(n, a) \<in> set (file_f s). dtype a \<notin> range UnicodeT"
    using export_loop_file_sources[OF assms(1) en l] by fastforce
  have b: "\<exists>n. records s = lg @ map (\<lambda>(k, a). (WARNING, k @ '' has dtype object, will not write to file''))
                                (filter (\<lambda>(k, a). dtype a = ObjectT) (take n flat))"
    using export_loop_records[OF assms(1) en l] by simp
  have c: "export_loop refuses s0 (k # ks) = export_loop refuses s0 ks"
    if "map_of (flat_d s0) k = Some a" and "dtype a = UnicodeT w" and "shape a = m # ms" and "0 < m"
    for s0 :: "'a hdf5_state" and k ks a w m ms
    using that by (simp add: export_item_Some[OF that(1)])
  show ?thesis using a b c by blast
qed

theorem export_data_text_leaves_witness:
  "distinct (map fst
     [(''net/pore.name'', \<lparr>dtype = UnicodeT 3, shape = [1], data = [''abc'']\<rparr>),
      (''net/pore.diameter'', \<lparr>dtype = FloatT 64, shape = [1], data = [''2.5'']\<rparr>)]) \<and>
   export_data (\<lambda>fl n a. False) []
     [(''net/pore.name'', \<lparr>dtype = UnicodeT 3, shape = [1], data = [''abc'']\<rparr>),
      (''net/pore.diameter'', \<lparr>dtype = FloatT 64, shape = [1], data = [''2.5'']\<rparr>)] =
   (None, \<lparr>records = [],
           flat_d = [(''net/pore.name'', \<lparr>dtype = UnicodeT 3, shape = [1], data = [''abc'']\<rparr>),
                     (''net/pore.diameter'', \<lparr>dtype = FloatT 64, shape = [1], data = [''2.5'']\<rparr>)],
           file_f = [(''/net/pore_diameter'', \<lparr>dtype = FloatT 64, shape = [1], data = [''2.5'']\<rparr>)]\<rparr>) \<and>
   list_all (\<lambda>(n, a). dtype a \<notin> range UnicodeT)
     [(''/net/pore_diameter'', \<lparr>dtype = FloatT 64, shape = [1], data = [''2.5'']\<rparr>)]"
proof -
  let ?flat = "[(''net/pore.name'', \<lparr>dtype = UnicodeT 3, shape = [1], data = [''abc'']\<rparr>),
      (''net/pore.diameter'', \<lparr>dtype = FloatT 64, shape = [1], data = [''2.5'']\<rparr>)]"
  let ?s = "\<lparr>records = [], flat_d = ?flat,
           file_f = [(''/net/pore_diameter'', \<lparr>dtype = FloatT 64, shape = [1], data = [''2.5'']\<rparr>)]\<rparr>"
  have d: "distinct (map fst ?flat)" by simp
  have e: "export_data (\<lambda>fl n a. False) [] ?flat = (None, ?s)"
    by (simp add: export_data_def keys_def export_item_def getitem0_dtype_def
          create_dataset_def tempname_def str_split_def str_nat.simps)
  from export_data_text_leaves[OF d e] d e show ?thesis by simp
qed

text \<open>
  C3. The claim says that sanitization is collision-free, dotted property names
  included. Line 80 only replaces each \<open>.\<close> by \<open>_\<close>, so a dotted name and the same
  name written with an underscore, under the same parent, get one sanitized path.
\<close>

theorem tempname_collision_counterexample:
  "tempname ''net/pore.size.max'' = tempname ''net/pore.size_max'' \<and>
   ''net/pore.size.max'' \<noteq> ''net/pore.size_max''"
  by (simp add: tempname_def str_split_def)

text \<open>
  C3, amended. Sanitization is a function of the path alone (it replaces each \<open>.\<close> by
  \<open>_\<close> and changes nothing else), and two paths get the same sanitized path exactly
  when they have the same length and differ only at positions where both have \<open>.\<close> or
  \<open>_\<close>. So it is collision-free on every set of keys in which no two keys differ only
  by exchanging \<open>.\<close> and \<open>_\<close>, for instance on keys that contain no \<open>_\<close>.
\<close>

theorem tempname_collisions:
  "tempname p = map (\<lambda>c. if c = CHR ''.'' then CHR ''_'' else c) p \<and>
   (tempname p = tempname q \<longleftrightarrow>
      length p = length q \<and>
      (\<forall>i < length p. p ! i = q ! i \<or>
         (p ! i \<in> {CHR ''.'', CHR ''_''} \<and> q ! i \<in> {CHR ''.'', CHR ''_''}))) \<and>
   (CHR ''_'' \<notin> set p \<and> CHR ''_'' \<notin> set q \<and> tempname p = tempname q \<longrightarrow> p = q)"
proof -
  have a: "tempname p = map (\<lambda>c. if c = CHR ''.'' then CHR ''_'' else c) p"
    by (rule tempname_map)
  have b: "tempname p = tempname q \<longleftrightarrow>
      length p = length q \<and>
      (\<forall>i < length p. p ! i = q ! i \<or>
         (p ! i \<in> {CHR ''.'', CHR ''_''} \<and> q ! i \<in> {CHR ''.'', CHR ''_''}))"
    unfolding tempname_map by (auto simp: list_eq_iff_nth_eq split: if_splits)
  have c: "p = q" if "CHR ''_'' \<notin> set p" and "CHR ''_'' \<notin> set q" and "tempname p = tempname q"
  proof -
    have len: "length p = length q" using that(3) b by blast
    have "p ! i = q ! i" if i: "i < length p" for i
    proof -
      have "p ! i \<noteq> CHR ''_''" using \<open>CHR ''_'' \<notin> set p\<close> i by (metis nth_mem)
      moreover have "q ! i \<noteq> CHR ''_''" using \<open>CHR ''_'' \<notin> set q\<close> i len by (metis nth_mem)
      moreover have "p ! i = q ! i \<or>
         (p ! i \<in> {CHR ''.'', CHR ''_''} \<and> q ! i \<in> {CHR ''.'', CHR ''_''})"
        using \<open>tempname p = tempname q\<close> b i by blast
      ultimately show ?thesis by auto
    qed
    then show ?thesis using len by (simp add: list_eq_iff_nth_eq)
  qed
  show ?thesis using a b c by blast
qed

theorem tempname_collisions_witness:
  "CHR ''_'' \<notin> set ''net/pore.size.max'' \<and> CHR ''_'' \<notin> set ''net/pore.size.min'' \<and>
   ''net/pore.size.max'' \<noteq> ''net/pore.size.min'' \<and>
   tempname ''net/pore.size.max'' \<noteq> tempname ''net/pore.size.min''"
proof -
  have "CHR ''_'' \<notin> set ''net/pore.size.max'' \<and> CHR ''_'' \<notin> set ''net/pore.size.min'' \<and>
        tempname ''net/pore.size.max'' = tempname ''net/pore.size.min'' \<longrightarrow>
        ''net/pore.size.max'' = ''net/pore.size.min''"
    using conjunct2[OF conjunct2[OF tempname_collisions[of "''net/pore.size.max''" "''net/pore.size.min''"]]] .
  then show ?thesis by simp
qed

lemma export_item_empty:
  fixes a :: "'a ndarray" and s0 :: "'a hdf5_state"
  assumes "map_of (flat_d s0) k = Some a" and "dtype a \<noteq> ObjectT" and "shape a = 0 # ns"
  shows "export_item refuses s0 k = (Some IndexError, s0)"
  using assms(2,3) by (simp add: export_item_Some[OF assms(1)])

lemma export_loop_exception_kinds:
  assumes "distinct (map fst es)"
    and "\<forall>(k, a) \<in> set es. map_of (flat_d s) k = Some a"
    and "export_loop refuses s (map fst es) = (exc, s')"
  shows "exc = None \<or> exc = Some IndexError \<or> (\<exists>n fl a. exc = Some (H5Error n) \<and> refuses fl n a)"
  using export_loop_exceptions[OF assms] by (elim disjE conjE exE) auto

lemma export_loop_no_IndexError:
  assumes "distinct (map fst es)"
    and "\<forall>(k, a) \<in> set es. map_of (flat_d s) k = Some a"
    and "export_loop refuses s (map fst es) = (exc, s')"
    and "\<forall>(k, a) \<in> set es. \<exists>m ms. shape a = m # ms \<and> 0 < m"
  shows "exc \<noteq> Some IndexError"
proof
  assume i: "exc = Some IndexError"
  then obtain k a where "(k, a) \<in> set es" and "shape a = [] \<or> (\<exists>ns. shape a = 0 # ns)"
    using export_loop_exceptions[OF assms(1,2,3)] by auto
  moreover have "\<exists>m ms. shape a = m # ms \<and> 0 < m" using assms(4) calculation(1) by auto
  ultimately show False by auto
qed

text \<open>
  C10. Line 85 reads the dtype of \<open>arr[0]\<close>. At an entry whose array is not of object
  dtype and has a first axis of length zero, the loop body raises \<open>IndexError\<close> and
  creates no dataset, whatever the state; so \<open>export_data\<close> on a dictionary with such an
  entry never returns normally, and the exception is \<open>IndexError\<close> unless h5py has
  refused an earlier dataset. Every dataset that was created has a non-empty first axis.
  When every array has a first axis of non-zero length, \<open>IndexError\<close> is not raised.
\<close>

theorem export_data_empty_array:
  assumes "distinct (map fst flat)" and "export_data refuses lg flat = (exc, s)"
  shows "(\<forall>(k, a) \<in> set flat. dtype a \<noteq> ObjectT \<and> (\<exists>ns. shape a = 0 # ns) \<longrightarrow>
            (\<forall>s0. map_of (flat_d s0) k = Some a \<longrightarrow>
                  export_item refuses s0 k = (Some IndexError, s0)) \<and>
            exc \<noteq> None \<and>
            (exc = Some IndexError \<or> (\<exists>n. exc = Some (H5Error n))) \<and>
            ((\<forall>fl n b. \<not> refuses fl n b) \<longrightarrow> exc = Some IndexError)) \<and>
         (\<forall>(n, a) \<in> set (file_f s). \<exists>m ms. shape a = m # ms \<and> 0 < m) \<and>
         ((\<forall>(k, a) \<in> set flat. \<exists>m ms. shape a = m # ms \<and> 0 < m) \<longrightarrow> exc \<noteq> Some IndexError)"
proof (intro conjI)
  let ?s0 = "\<lparr>records = lg, flat_d = flat, file_f = []\<rparr>"
  have l: "export_loop refuses ?s0 (map fst flat) = (exc, s)"
    using assms(2) by (simp add: export_data_def keys_def)
  note en = flat_entries[OF assms(1), of lg]
  note kinds = export_loop_exception_kinds[OF assms(1) en l]
  show "\<forall>(k, a) \<in> set flat. dtype a \<noteq> ObjectT \<and> (\<exists>ns. shape a = 0 # ns) \<longrightarrow>
            (\<forall>s0. map_of (flat_d s0) k = Some a \<longrightarrow>
                  export_item refuses s0 k = (Some IndexError, s0)) \<and>
            exc \<noteq> None \<and>
            (exc = Some IndexError \<or> (\<exists>n. exc = Some (H5Error n))) \<and>
            ((\<forall>fl n b. \<not> refuses fl n b) \<longrightarrow> exc = Some IndexError)"
  proof (clarify)
    fix k a ns
    assume m: "(k, a) \<in> set flat" and o: "dtype a \<noteq> ObjectT" and z: "shape a = 0 # ns"
    have 1: "\<forall>s0. map_of (flat_d s0) k = Some a \<longrightarrow>
                  export_item refuses s0 k = (Some IndexError, s0)"
      using export_item_empty[OF _ o z] by blast
    have 2: "exc \<noteq> None"
      using export_loop_empty_raises[OF assms(1) en l m o] z by blast
    have 3: "exc = Some IndexError \<or> (\<exists>n. exc = Some (H5Error n))"
      using kinds 2 by blast
    have 4: "(\<forall>fl n b. \<not> refuses fl n b) \<longrightarrow> exc = Some IndexError"
      using kinds 2 by blast
    show "(\<forall>s0. map_of (flat_d s0) k = Some a \<longrightarrow>
                  export_item refuses s0 k = (Some IndexError, s0)) \<and>
            exc \<noteq> None \<and>
            (exc = Some IndexError \<or> (\<exists>n. exc = Some (H5Error n))) \<and>
            ((\<forall>fl n b. \<not> refuses fl n b) \<longrightarrow> exc = Some IndexError)"
      using 1 2 3 4 by (intro conjI)
  qed
  show "\<forall>(n, a) \<in> set (file_f s). \<exists>m ms. shape a = m # ms \<and> 0 < m"
    using export_loop_file_sources[OF assms(1) en l] by fastforce
  show "(\<forall>(k, a) \<in> set flat. \<exists>m ms. shape a = m # ms \<and> 0 < m) \<longrightarrow> exc \<noteq> Some IndexError"
    using export_loop_no_IndexError[OF assms(1) en l] by blast
qed

theorem export_data_empty_array_witness:
  "distinct (map fst
     [(''net/pore.diameter'', \<lparr>dtype = FloatT 64, shape = [0], data = ([] :: nat list)\<rparr>)]) \<and>
   export_data (\<lambda>fl n a. False) []
     [(''net/pore.diameter'', \<lparr>dtype = FloatT 64, shape = [0], data = ([] :: nat list)\<rparr>)] =
   (Some IndexError,
    \<lparr>records = [],
     flat_d = [(''net/pore.diameter'', \<lparr>dtype = FloatT 64, shape = [0], data = []\<rparr>)],
     file_f = []\<rparr>) \<and>
   Some IndexError \<noteq> (None :: error option)"
proof -
  let ?flat = "[(''net/pore.diameter'', \<lparr>dtype = FloatT 64, shape = [0], data = ([] :: nat list)\<rparr>)]"
  let ?s = "\<lparr>records = [], flat_d = ?flat, file_f = []\<rparr>"
  have d: "distinct (map fst ?flat)" by simp
  have e: "export_data (\<lambda>fl n a. False) [] ?flat = (Some IndexError, ?s)"
    by (simp add: export_data_def keys_def export_item_def getitem0_dtype_def)
  from export_data_empty_array[OF d e] d e show ?thesis by simp
qed

section \<open>Lemmas about the constructor\<close>

lemma keys_iff: "k \<in> set (keys dct) \<longleftrightarrow> map_of dct k \<noteq> None"
  by (simp add: keys_def map_of_eq_None_iff)

lemma props_subset: "k \<in> set (props net) \<Longrightarrow> map_of net k \<noteq> None"
  by (auto simp: props_def map_of_eq_None_iff intro: rev_image_eqI)

lemma distinct_props: "distinct (map fst net) \<Longrightarrow> distinct (props net)"
  by (simp add: props_def distinct_map_filter)

text \<open>What the transfer loop leaves alone, whether or not it raises.\<close>

lemma transfer_frame:
  assumes "transfer exclude s items = (exc, s')"
  shows "records s' = records s \<and> models s' = models s \<and>
         (\<forall>k. k \<in> set exclude \<or> k \<notin> set items \<longrightarrow>
              map_of (network s') k = map_of (network s) k \<and>
              map_of (self s') k = map_of (self s) k)"
  using assms
proof (induction items arbitrary: s)
  case Nil
  then show ?case by simp
next
  case (Cons item items)
  show ?case
  proof (cases "item \<in> set exclude")
    case True
    then have "transfer exclude s items = (exc, s')" using Cons.prems by simp
    from Cons.IH[OF this] True show ?thesis by auto
  next
    case False
    show ?thesis
    proof (cases "map_of (network s) item")
      case None
      then show ?thesis using Cons.prems False by (simp add: pop_def)
    next
      case (Some v)
      let ?s1 = "s\<lparr>network := AList.delete item (network s), self := AList.update item v (self s)\<rparr>"
      have "transfer exclude ?s1 items = (exc, s')"
        using Cons.prems False Some by (simp add: pop_def)
      from Cons.IH[OF this] False show ?thesis by (auto simp: update_conv' delete_conv')
    qed
  qed
qed

text \<open>The transfer of distinct keys that the network holds runs to its end.\<close>

lemma transfer_moves:
  assumes "distinct items" and "\<forall>k \<in> set items. map_of (network s) k \<noteq> None"
  shows "\<exists>s'. transfer exclude s items = (None, s') \<and>
           (\<forall>k. map_of (network s') k =
                  (if k \<in> set items \<and> k \<notin> set exclude then None else map_of (network s) k)) \<and>
           (\<forall>k. map_of (self s') k =
                  (if k \<in> set items \<and> k \<notin> set exclude then map_of (network s) k
                   else map_of (self s) k))"
  using assms
proof (induction items arbitrary: s)
  case Nil
  then show ?case by simp
next
  case (Cons item items)
  have d: "distinct items" and ni: "item \<notin> set items" using Cons.prems(1) by auto
  show ?case
  proof (cases "item \<in> set exclude")
    case True
    have "\<forall>k \<in> set items. map_of (network s) k \<noteq> None" using Cons.prems(2) by simp
    from Cons.IH[OF d this] obtain s' where
      t: "transfer exclude s items = (None, s')" and
      n: "\<forall>k. map_of (network s') k =
                  (if k \<in> set items \<and> k \<notin> set exclude then None else map_of (network s) k)" and
      g: "\<forall>k. map_of (self s') k =
                  (if k \<in> set items \<and> k \<notin> set exclude then map_of (network s) k
                   else map_of (self s) k)"
      by blast
    have "transfer exclude s (item # items) = (None, s')" using t True by simp
    moreover have "\<forall>k. map_of (network s') k =
                  (if k \<in> set (item # items) \<and> k \<notin> set exclude then None else map_of (network s) k)"
      using n True by auto
    moreover have "\<forall>k. map_of (self s') k =
                  (if k \<in> set (item # items) \<and> k \<notin> set exclude then map_of (network s) k
                   else map_of (self s) k)"
      using g True by auto
    ultimately show ?thesis by blast
  next
    case False
    obtain v where v: "map_of (network s) item = Some v" using Cons.prems(2) by auto
    let ?s1 = "s\<lparr>network := AList.delete item (network s), self := AList.update item v (self s)\<rparr>"
    have "\<forall>k \<in> set items. map_of (network ?s1) k \<noteq> None"
      using Cons.prems(2) ni by (auto simp: delete_conv')
    from Cons.IH[OF d this] obtain s' where
      t: "transfer exclude ?s1 items = (None, s')" and
      n: "\<forall>k. map_of (network s') k =
                  (if k \<in> set items \<and> k \<notin> set exclude then None else map_of (network ?s1) k)" and
      g: "\<forall>k. map_of (self s') k =
                  (if k \<in> set items \<and> k \<notin> set exclude then map_of (network ?s1) k
                   else map_of (self ?s1) k)"
      by blast
    have "transfer exclude s (item # items) = (None, s')" using t False v by (simp add: pop_def)
    moreover have "\<forall>k. map_of (network s') k =
                  (if k \<in> set (item # items) \<and> k \<notin> set exclude then None else map_of (network s) k)"
      using n False ni by (auto simp: delete_conv')
    moreover have "\<forall>k. map_of (self s') k =
                  (if k \<in> set (item # items) \<and> k \<notin> set exclude then map_of (network s) k
                   else map_of (self s) k)"
      using g False ni v by (auto simp: delete_conv' update_conv')
    ultimately show ?thesis by blast
  qed
qed

lemma assign_diameter_frame:
  "network (assign_diameter getitem element setting s) = network s \<and>
   models (assign_diameter getitem element setting s) = models s \<and>
   (\<forall>k. k \<noteq> element @ ''.diameter'' \<longrightarrow>
        map_of (self (assign_diameter getitem element setting s)) k = map_of (self s) k) \<and>
   (\<forall>k. map_of (self s) k \<noteq> None \<longrightarrow>
        map_of (self (assign_diameter getitem element setting s)) k = map_of (self s) k)"
  by (auto simp: assign_diameter_def keys_iff update_conv' Let_def split: option.splits)

lemma assign_diameters_frame:
  "network (assign_diameters getitem st s) = network s \<and>
   models (assign_diameters getitem st s) = models s \<and>
   (\<forall>k. k \<noteq> ''pore.diameter'' \<and> k \<noteq> ''throat.diameter'' \<longrightarrow>
        map_of (self (assign_diameters getitem st s)) k = map_of (self s) k) \<and>
   (\<forall>k. map_of (self s) k \<noteq> None \<longrightarrow>
        map_of (self (assign_diameters getitem st s)) k = map_of (self s) k)"
proof -
  let ?p = "assign_diameter getitem ''pore'' (pore_diameter st) s"
  note p = assign_diameter_frame[of getitem "''pore''" "pore_diameter st" s]
  note t = assign_diameter_frame[of getitem "''throat''" "throat_diameter st" ?p]
  have 1: "network (assign_diameters getitem st s) = network s" using p t by (simp add: assign_diameters_def)
  have 2: "models (assign_diameters getitem st s) = models s" using p t by (simp add: assign_diameters_def)
  have 3: "map_of (self (assign_diameters getitem st s)) k = map_of (self s) k"
    if "k \<noteq> ''pore.diameter''" and "k \<noteq> ''throat.diameter''" for k
  proof -
    have "map_of (self (assign_diameters getitem st s)) k = map_of (self ?p) k"
      using t that(2) by (simp add: assign_diameters_def)
    also have "\<dots> = map_of (self s) k" using p that(1) by simp
    finally show ?thesis .
  qed
  have 4: "map_of (self (assign_diameters getitem st s)) k = map_of (self s) k"
    if "map_of (self s) k \<noteq> None" for k
  proof -
    have a: "map_of (self ?p) k = map_of (self s) k" using p that by blast
    then have "map_of (self ?p) k \<noteq> None" using that by simp
    then have "map_of (self (assign_diameters getitem st s)) k = map_of (self ?p) k"
      using t by (simp add: assign_diameters_def)
    then show ?thesis using a by simp
  qed
  show ?thesis using 1 2 3 4 by blast
qed

lemmas register_defs =
  register_models_def and_then_def register_throat_length_def register_throat_volume_def
  register_diffusive_def register_hydraulic_def getattr_def add_model_def

lemma register_models_frame:
  assumes "register_models mods st s = (exc, s')"
  shows "self s' = self s \<and> network s' = network s \<and> records s' = records s \<and>
         (exc = None \<or> exc = Some (AttributeError (shape_pair st)) \<or>
          exc = Some (AttributeError (throat_shape st)))"
  using assms by (auto simp: register_defs split: if_splits option.splits)

lemma register_models_no_length:
  assumes "''throat.length'' \<notin> set (keys (self s))" and "throat_length mods (shape_pair st) = None"
  shows "register_models mods st s = (Some (AttributeError (shape_pair st)), s)"
  using assms by (simp add: register_defs)

lemma register_models_missing:
  assumes "register_models mods st s = (exc, s')"
    and "diffusive_size_factors mods (shape_pair st) = None \<or>
         hydraulic_size_factors mods (shape_pair st) = None \<or>
         (''throat.length'' \<notin> set (keys (self s)) \<and> throat_length mods (shape_pair st) = None)"
  shows "exc \<noteq> None"
  using assms by (auto simp: register_defs split: if_splits option.splits)

lemma register_models_done:
  assumes "register_models mods st s = (None, s')"
  shows "\<exists>md mh. diffusive_size_factors mods (shape_pair st) = Some md \<and>
           hydraulic_size_factors mods (shape_pair st) = Some mh \<and>
           models s' = models s @
             (if ''throat.length'' \<notin> set (keys (self s))
              then [(''throat.length'', the (throat_length mods (shape_pair st)),
                     [(''throat_diameter'', ''throat.diameter''), (''pore_diameter'', ''pore.diameter'')])]
              else []) @
             (if ''throat.volume'' \<notin> set (keys (self s))
              then [(''throat.volume'', the (throat_volume mods (throat_shape st)),
                     [(''throat_length'', ''throat.length''), (''throat_diameter'', ''throat.diameter'')])]
              else []) @
             [(''throat.diffusive_size_factors'', md, []), (''throat.hydraulic_size_factors'', mh, [])] \<and>
           (''throat.length'' \<notin> set (keys (self s)) \<longrightarrow> throat_length mods (shape_pair st) \<noteq> None) \<and>
           (''throat.volume'' \<notin> set (keys (self s)) \<longrightarrow> throat_volume mods (throat_shape st) \<noteq> None)"
  using assms by (auto simp: register_defs split: if_splits option.splits)

lemma Imported_init_eq:
  assumes "transfer_props st lg net geo = (e1, s1)"
  shows "Imported_init getitem mods st lg net geo =
           (case e1 of Some e \<Rightarrow> (Some e, s1)
            | None \<Rightarrow> register_models mods st (assign_diameters getitem st s1))"
  using assms by (simp add: Imported_init_def and_then_def split: option.splits)

lemma Imported_init_state:
  fixes s :: "('a, 'm) imported_state"
  assumes "Imported_init getitem mods st lg net geo = (exc, s)"
  shows "\<exists>e1 (s1 :: ('a, 'm) imported_state). transfer_props st lg net geo = (e1, s1) \<and> network s = network s1 \<and>
           (\<forall>k. k \<noteq> ''pore.diameter'' \<and> k \<noteq> ''throat.diameter'' \<longrightarrow>
                map_of (self s) k = map_of (self s1) k) \<and>
           (\<forall>k. map_of (self s1) k \<noteq> None \<longrightarrow> map_of (self s) k = map_of (self s1) k)"
proof -
  obtain e1 and s1 :: "('a, 'm) imported_state" where t: "transfer_props st lg net geo = (e1, s1)"
    by (cases "transfer_props st lg net geo :: error option \<times> ('a, 'm) imported_state") blast
  note eq = Imported_init_eq[OF t, of getitem mods]
  show ?thesis
  proof (cases e1)
    case (Some e)
    then have "s = s1" using eq assms by simp
    then show ?thesis using t by auto
  next
    case None
    then have r: "register_models mods st (assign_diameters getitem st s1) = (exc, s)" using eq assms by simp
    note f = register_models_frame[OF r]
    note a = assign_diameters_frame[of getitem st s1]
    have "network s = network s1" using f a by simp
    moreover have "\<forall>k. k \<noteq> ''pore.diameter'' \<and> k \<noteq> ''throat.diameter'' \<longrightarrow>
                map_of (self s) k = map_of (self s1) k" using f a by simp
    moreover have "\<forall>k. map_of (self s1) k \<noteq> None \<longrightarrow> map_of (self s) k = map_of (self s1) k"
      using f a by simp
    ultimately show ?thesis using t by blast
  qed
qed

lemma transfer_props_moves:
  fixes net :: "'a ndarray pydict"
  assumes "distinct (map fst net)"
  shows "\<exists>s1 :: ('a, 'm) imported_state. transfer_props st lg net geo = (None, s1) \<and>
           (\<forall>k. map_of (network s1) k =
                  (if k \<in> set (props net) \<and> k \<notin> set (exclude_list st) then None else map_of net k)) \<and>
           (\<forall>k. map_of (self s1) k =
                  (if k \<in> set (props net) \<and> k \<notin> set (exclude_list st) then map_of net k
                   else map_of geo k))"
proof -
  let ?s0 = "\<lparr>records = lg, network = net, self = geo, models = []\<rparr> :: ('a, 'm) imported_state"
  have "\<forall>k \<in> set (props net). map_of (network ?s0) k \<noteq> None"
    using props_subset[of _ net] by simp
  from transfer_moves[OF distinct_props[OF assms] this, of "exclude_list st"]
  obtain s' where t: "transfer (exclude_list st) ?s0 (props net) = (None, s')"
    and n: "\<forall>k. map_of (network s') k =
                  (if k \<in> set (props net) \<and> k \<notin> set (exclude_list st) then None
                   else map_of (network ?s0) k)"
    and g: "\<forall>k. map_of (self s') k =
                  (if k \<in> set (props net) \<and> k \<notin> set (exclude_list st) then map_of (network ?s0) k
                   else map_of (self ?s0) k)"
    by blast
  have "transfer_props st lg net geo = (None, s')" using t by (simp add: transfer_props_def)
  moreover have "\<forall>k. map_of (network s') k =
                  (if k \<in> set (props net) \<and> k \<notin> set (exclude_list st) then None else map_of net k)"
    using n by simp
  moreover have "\<forall>k. map_of (self s') k =
                  (if k \<in> set (props net) \<and> k \<notin> set (exclude_list st) then map_of net k
                   else map_of geo k)"
    using g by simp
  ultimately show ?thesis by blast
qed

lemma transfer_props_frame:
  fixes s1 :: "('a, 'm) imported_state"
  assumes "transfer_props st lg net geo = (e1, s1)"
  shows "records s1 = lg \<and> models s1 = [] \<and>
         (\<forall>k. k \<in> set (exclude_list st) \<longrightarrow>
              map_of (network s1) k = map_of net k \<and> map_of (self s1) k = map_of geo k)"
  using transfer_frame[OF assms[unfolded transfer_props_def]] by simp

section \<open>Claims about \<open>Imported.__init__\<close>\<close>

text \<open>
  C4. With \<open>exclude_props = []\<close>, every property key of the network outside the
  always-excluded keys of line 80 is moved: afterwards the geometry holds the array the
  network held, and the network holds nothing under that key. \<open>pore.coords\<close> and
  \<open>throat.conns\<close> stay on the network with their arrays, and the geometry's entries
  for them are what they were before. This holds for the state the constructor leaves
  behind, whether or not the registration of models raises later.
\<close>

theorem Imported_moves_props:
  fixes s :: "('a, 'm) imported_state"
  assumes "distinct (map fst net)" and "exclude_props st = []"
    and "Imported_init getitem mods st lg net geo = (exc, s)"
  shows "(\<forall>k \<in> set (props net).
            k \<notin> {''pore.coords'', ''throat.conns'', ''pore.region_label''} \<longrightarrow>
            map_of net k \<noteq> None \<and> map_of (self s) k = map_of net k \<and>
            map_of (network s) k = None) \<and>
         (\<forall>k \<in> {''pore.coords'', ''throat.conns''}.
            map_of (network s) k = map_of net k \<and> map_of (self s) k = map_of geo k)"
proof -
  obtain e1 and s1 :: "('a, 'm) imported_state" where
    t: "transfer_props st lg net geo = (e1, s1)" and
    n: "network s = network s1" and
    o: "\<forall>k. k \<noteq> ''pore.diameter'' \<and> k \<noteq> ''throat.diameter'' \<longrightarrow>
                map_of (self s) k = map_of (self s1) k" and
    p: "\<forall>k. map_of (self s1) k \<noteq> None \<longrightarrow> map_of (self s) k = map_of (self s1) k"
    using Imported_init_state[OF assms(3)] by (elim exE conjE)
  obtain s1' :: "('a, 'm) imported_state" where
    t': "transfer_props st lg net geo = (None, s1')" and
    mn: "\<forall>k. map_of (network s1') k =
                  (if k \<in> set (props net) \<and> k \<notin> set (exclude_list st) then None else map_of net k)" and
    mg: "\<forall>k. map_of (self s1') k =
                  (if k \<in> set (props net) \<and> k \<notin> set (exclude_list st) then map_of net k
                   else map_of geo k)"
    using transfer_props_moves[OF assms(1), of st lg geo] by (elim exE conjE)
  have s1: "s1' = s1" using t t' by simp
  have ex: "set (exclude_list st) = {''pore.coords'', ''throat.conns'', ''pore.region_label''}"
    using assms(2) by (simp add: exclude_list_def)
  have a: "map_of net k \<noteq> None \<and> map_of (self s) k = map_of net k \<and> map_of (network s) k = None"
    if "k \<in> set (props net)" and "k \<notin> {''pore.coords'', ''throat.conns'', ''pore.region_label''}" for k
  proof -
    have 1: "map_of net k \<noteq> None" using props_subset[OF that(1)] .
    have in_ex: "k \<notin> set (exclude_list st)" using that(2) unfolding ex .
    have 2: "map_of (self s1) k = map_of net k"
      using spec[OF mg, of k] that(1) in_ex s1 by simp
    have 3: "map_of (self s) k = map_of net k" using spec[OF p, of k] 1 2 by simp
    have 4: "map_of (network s) k = None"
      using spec[OF mn, of k] that(1) in_ex s1 n by simp
    show ?thesis using 1 3 4 by (intro conjI)
  qed
  have b: "map_of (network s) k = map_of net k \<and> map_of (self s) k = map_of geo k"
    if "k \<in> {''pore.coords'', ''throat.conns''}" for k
  proof -
    have k: "k \<in> set (exclude_list st)" using that unfolding ex by auto
    have d: "k \<noteq> ''pore.diameter'' \<and> k \<noteq> ''throat.diameter''" using that by auto
    have fr: "\<forall>k. k \<in> set (exclude_list st) \<longrightarrow>
              map_of (network s1) k = map_of net k \<and> map_of (self s1) k = map_of geo k"
      using transfer_props_frame[OF t] by (elim conjE)
    have "map_of (network s1) k = map_of net k \<and> map_of (self s1) k = map_of geo k"
      using spec[OF fr, of k] k by simp
    then show ?thesis using n spec[OF o, of k] d by simp
  qed
  show ?thesis
  proof (intro conjI ballI impI)
    fix k assume "k \<in> set (props net)"
      and "k \<notin> {''pore.coords'', ''throat.conns'', ''pore.region_label''}"
    from a[OF this] show "map_of net k \<noteq> None" and "map_of (self s) k = map_of net k"
      and "map_of (network s) k = None" by blast+
  next
    fix k assume "k \<in> {''pore.coords'', ''throat.conns''}"
    from b[OF this] show "map_of (network s) k = map_of net k" and "map_of (self s) k = map_of geo k"
      by blast+
  qed
qed

lemmas init_defs =
  Imported_init_def transfer_props_def and_then_def props_def exclude_list_def
  ImportedSettings_def pop_def assign_diameters_def assign_diameter_def alias_key_def
  str_split_def keys_def register_defs shape_pair_def

theorem Imported_moves_props_witness:
  "distinct (map fst
     [(''pore.coords'', \<lparr>dtype = FloatT 64, shape = [1, 3], data = [0, 0, 0 :: nat]\<rparr>),
      (''pore.volume'', \<lparr>dtype = FloatT 64, shape = [1], data = [7]\<rparr>)]) \<and>
   exclude_props ImportedSettings = [] \<and>
   ''pore.volume'' \<in> set (props
     [(''pore.coords'', \<lparr>dtype = FloatT 64, shape = [1, 3], data = [0, 0, 0 :: nat]\<rparr>),
      (''pore.volume'', \<lparr>dtype = FloatT 64, shape = [1], data = [7]\<rparr>)]) \<and>
   map_of (self (snd (Imported_init
       (\<lambda>g n k. case map_of g k of None \<Rightarrow> map_of n k | Some v \<Rightarrow> Some v)
       \<lparr>throat_length = [''cones_and_cylinders'' \<mapsto> ''L''],
        throat_volume = [''cylinder'' \<mapsto> ''V''],
        diffusive_size_factors = [''cones_and_cylinders'' \<mapsto> ''D''],
        hydraulic_size_factors = [''cones_and_cylinders'' \<mapsto> ''H'']\<rparr>
       ImportedSettings []
       [(''pore.coords'', \<lparr>dtype = FloatT 64, shape = [1, 3], data = [0, 0, 0 :: nat]\<rparr>),
        (''pore.volume'', \<lparr>dtype = FloatT 64, shape = [1], data = [7]\<rparr>)] []))) ''pore.volume'' =
     Some \<lparr>dtype = FloatT 64, shape = [1], data = [7]\<rparr> \<and>
   map_of (network (snd (Imported_init
       (\<lambda>g n k. case map_of g k of None \<Rightarrow> map_of n k | Some v \<Rightarrow> Some v)
       \<lparr>throat_length = [''cones_and_cylinders'' \<mapsto> ''L''],
        throat_volume = [''cylinder'' \<mapsto> ''V''],
        diffusive_size_factors = [''cones_and_cylinders'' \<mapsto> ''D''],
        hydraulic_size_factors = [''cones_and_cylinders'' \<mapsto> ''H'']\<rparr>
       ImportedSettings []
       [(''pore.coords'', \<lparr>dtype = FloatT 64, shape = [1, 3], data = [0, 0, 0 :: nat]\<rparr>),
        (''pore.volume'', \<lparr>dtype = FloatT 64, shape = [1], data = [7]\<rparr>)] []))) ''pore.volume'' = None \<and>
   map_of (self (snd (Imported_init
       (\<lambda>g n k. case map_of g k of None \<Rightarrow> map_of n k | Some v \<Rightarrow> Some v)
       \<lparr>throat_length = [''cones_and_cylinders'' \<mapsto> ''L''],
        throat_volume = [''cylinder'' \<mapsto> ''V''],
        diffusive_size_factors = [''cones_and_cylinders'' \<mapsto> ''D''],
        hydraulic_size_factors = [''cones_and_cylinders'' \<mapsto> ''H'']\<rparr>
       ImportedSettings []
       [(''pore.coords'', \<lparr>dtype = FloatT 64, shape = [1, 3], data = [0, 0, 0 :: nat]\<rparr>),
        (''pore.volume'', \<lparr>dtype = FloatT 64, shape = [1], data = [7]\<rparr>)] []))) ''pore.coords'' = None"
proof -
  let ?net = "[(''pore.coords'', \<lparr>dtype = FloatT 64, shape = [1, 3], data = [0, 0, 0 :: nat]\<rparr>),
      (''pore.volume'', \<lparr>dtype = FloatT 64, shape = [1], data = [7]\<rparr>)]"
  let ?mods = "\<lparr>throat_length = [''cones_and_cylinders'' \<mapsto> ''L''],
        throat_volume = [''cylinder'' \<mapsto> ''V''],
        diffusive_size_factors = [''cones_and_cylinders'' \<mapsto> ''D''],
        hydraulic_size_factors = [''cones_and_cylinders'' \<mapsto> ''H'']\<rparr>"
  let ?r = "Imported_init (\<lambda>g n k. case map_of g k of None \<Rightarrow> map_of n k | Some v \<Rightarrow> Some v) ?mods ImportedSettings [] ?net []"
  have d: "distinct (map fst ?net)" by simp
  have x: "exclude_props ImportedSettings = []" by (simp add: ImportedSettings_def)
  have r: "?r = (fst ?r, snd ?r)" by simp
  have v: "''pore.volume'' \<in> set (props ?net)" by (simp add: props_def)
  have c: "''pore.coords'' \<in> {''pore.coords'', ''throat.conns''}" by simp
  note th = Imported_moves_props[OF d x r]
  have 1: "map_of (self (snd ?r)) ''pore.volume'' = map_of ?net ''pore.volume'' \<and>
           map_of (network (snd ?r)) ''pore.volume'' = None"
    using bspec[OF conjunct1[OF th] v] by simp
  have 2: "map_of (self (snd ?r)) ''pore.coords'' = map_of ([] :: nat ndarray pydict) ''pore.coords''"
    using bspec[OF conjunct2[OF th] c] by simp
  show ?thesis using d x v 1 2 by simp
qed

text \<open>
  C8. Line 80 always adds \<open>pore.region_label\<close> to the excluded keys. For every
  network, every settings value and every outcome of the constructor, the network's
  entry for \<open>pore.region_label\<close> is what it was, and so is the geometry's: a geometry
  that did not hold the key before the transfer does not hold it afterwards.
\<close>

theorem region_label_stays:
  fixes s :: "('a, 'm) imported_state"
  assumes "Imported_init getitem mods st lg net geo = (exc, s)"
  shows "map_of (network s) ''pore.region_label'' = map_of net ''pore.region_label'' \<and>
         map_of (self s) ''pore.region_label'' = map_of geo ''pore.region_label'' \<and>
         (''pore.region_label'' \<notin> set (keys geo) \<longrightarrow>
            ''pore.region_label'' \<notin> set (keys (self s)))"
proof -
  obtain e1 and s1 :: "('a, 'm) imported_state" where
    t: "transfer_props st lg net geo = (e1, s1)" and
    n: "network s = network s1" and
    o: "\<forall>k. k \<noteq> ''pore.diameter'' \<and> k \<noteq> ''throat.diameter'' \<longrightarrow>
                map_of (self s) k = map_of (self s1) k"
    using Imported_init_state[OF assms] by (elim exE conjE)
  have k: "''pore.region_label'' \<in> set (exclude_list st)" by (simp add: exclude_list_def)
  have fr: "\<forall>k. k \<in> set (exclude_list st) \<longrightarrow>
              map_of (network s1) k = map_of net k \<and> map_of (self s1) k = map_of geo k"
    using transfer_props_frame[OF t] by (elim conjE)
  have 1: "map_of (network s1) ''pore.region_label'' = map_of net ''pore.region_label'' \<and>
           map_of (self s1) ''pore.region_label'' = map_of geo ''pore.region_label''"
    using spec[OF fr, of "''pore.region_label''"] k by simp
  have 2: "map_of (self s) ''pore.region_label'' = map_of (self s1) ''pore.region_label''"
    using spec[OF o, of "''pore.region_label''"] by simp
  have a: "map_of (network s) ''pore.region_label'' = map_of net ''pore.region_label''"
    using 1 n by simp
  have b: "map_of (self s) ''pore.region_label'' = map_of geo ''pore.region_label''"
    using 1 2 by simp
  have c: "''pore.region_label'' \<notin> set (keys geo) \<longrightarrow> ''pore.region_label'' \<notin> set (keys (self s))"
    unfolding keys_iff using b by simp
  show ?thesis using a b c by (intro conjI)
qed

theorem region_label_stays_witness:
  "''pore.region_label'' \<notin> set (keys ([] :: nat ndarray pydict)) \<and>
   map_of (network (snd (Imported_init
       (\<lambda>g n k. case map_of g k of None \<Rightarrow> map_of n k | Some v \<Rightarrow> Some v)
       \<lparr>throat_length = [''cones_and_cylinders'' \<mapsto> ''L''],
        throat_volume = [''cylinder'' \<mapsto> ''V''],
        diffusive_size_factors = [''cones_and_cylinders'' \<mapsto> ''D''],
        hydraulic_size_factors = [''cones_and_cylinders'' \<mapsto> ''H'']\<rparr>
       ImportedSettings []
       [(''pore.region_label'', \<lparr>dtype = IntT 64, shape = [1], data = [1 :: nat]\<rparr>),
        (''pore.volume'', \<lparr>dtype = FloatT 64, shape = [1], data = [7]\<rparr>)] []))) ''pore.region_label'' =
     Some \<lparr>dtype = IntT 64, shape = [1], data = [1]\<rparr> \<and>
   ''pore.region_label'' \<notin> set (keys (self (snd (Imported_init
       (\<lambda>g n k. case map_of g k of None \<Rightarrow> map_of n k | Some v \<Rightarrow> Some v)
       \<lparr>throat_length = [''cones_and_cylinders'' \<mapsto> ''L''],
        throat_volume = [''cylinder'' \<mapsto> ''V''],
        diffusive_size_factors = [''cones_and_cylinders'' \<mapsto> ''D''],
        hydraulic_size_factors = [''cones_and_cylinders'' \<mapsto> ''H'']\<rparr>
       ImportedSettings []
       [(''pore.region_label'', \<lparr>dtype = IntT 64, shape = [1], data = [1 :: nat]\<rparr>),
        (''pore.volume'', \<lparr>dtype = FloatT 64, shape = [1], data = [7]\<rparr>)] []))))"
proof -
  let ?net = "[(''pore.region_label'', \<lparr>dtype = IntT 64, shape = [1], data = [1 :: nat]\<rparr>),
        (''pore.volume'', \<lparr>dtype = FloatT 64, shape = [1], data = [7]\<rparr>)]"
  let ?mods = "\<lparr>throat_length = [''cones_and_cylinders'' \<mapsto> ''L''],
        throat_volume = [''cylinder'' \<mapsto> ''V''],
        diffusive_size_factors = [''cones_and_cylinders'' \<mapsto> ''D''],
        hydraulic_size_factors = [''cones_and_cylinders'' \<mapsto> ''H'']\<rparr>"
  let ?r = "Imported_init (\<lambda>g n k. case map_of g k of None \<Rightarrow> map_of n k | Some v \<Rightarrow> Some v) ?mods ImportedSettings [] ?net []"
  have r: "?r = (fst ?r, snd ?r)" by simp
  have g: "''pore.region_label'' \<notin> set (keys ([] :: nat ndarray pydict))" by (simp add: keys_def)
  note th = region_label_stays[OF r]
  have 1: "map_of (network (snd ?r)) ''pore.region_label'' = map_of ?net ''pore.region_label''"
    using conjunct1[OF th] .
  have 2: "''pore.region_label'' \<notin> set (keys (self (snd ?r)))"
    using conjunct2[OF conjunct2[OF th]] g by simp
  show ?thesis using g 1 2 by simp
qed

lemma Imported_init_after_transfer:
  fixes s s1 :: "('a, 'm) imported_state"
  assumes "transfer_props st lg net geo = (None, s1)"
    and "Imported_init getitem mods st lg net geo = (exc, s)"
  shows "self s = self (assign_diameters getitem st s1) \<and> records s = records (assign_diameters getitem st s1) \<and>
         register_models mods st (assign_diameters getitem st s1) = (exc, s)"
proof -
  have r: "register_models mods st (assign_diameters getitem st s1) = (exc, s)"
    using Imported_init_eq[OF assms(1), of getitem mods] assms(2) by simp
  show ?thesis using register_models_frame[OF r] r by simp
qed

lemma assign_diameter_self:
  "self (assign_diameter getitem element setting s) =
     (if map_of (self s) (element @ ''.diameter'') = None then
        (case getitem (self s) (network s) (alias_key (element @ ''.'') setting) of
           Some v \<Rightarrow> AList.update (element @ ''.diameter'') v (self s)
         | None \<Rightarrow> self s)
      else self s)"
  by (simp add: assign_diameter_def keys_iff split: option.splits)

lemma assign_diameter_records:
  "records (assign_diameter getitem element setting s) =
     records s @
     (if map_of (self s) (element @ ''.diameter'') = None \<and>
         getitem (self s) (network s) (alias_key (element @ ''.'') setting) = None
      then [(ERROR, alias_key (element @ ''.'') setting @ '' not found, can'' @ [CHR 0x27] @
                    ''t assign '' @ [CHR 0x27] @ element @ ''.diameter'' @ [CHR 0x27])]
      else [])"
  by (auto simp: assign_diameter_def keys_iff split: option.splits)

lemma assign_diameter_network:
  "network (assign_diameter getitem element setting s) = network s"
  by (simp add: assign_diameter_def Let_def split: option.splits)

lemma pore_diameter_assigned:
  assumes "map_of (self s1) ''pore.diameter'' = None"
  shows "case getitem (self s1) (network s1) (alias_key ''pore.'' (pore_diameter st)) of
           Some v \<Rightarrow> map_of (self (assign_diameters getitem st s1)) ''pore.diameter'' = Some v
         | None \<Rightarrow> map_of (self (assign_diameters getitem st s1)) ''pore.diameter'' = None"
proof -
  let ?p = "assign_diameter getitem ''pore'' (pore_diameter st) s1"
  let ?t = "assign_diameter getitem ''throat'' (throat_diameter st) ?p"
  have fin: "assign_diameters getitem st s1 = ?t" by (simp add: assign_diameters_def)
  have other: "map_of (self ?t) ''pore.diameter'' = map_of (self ?p) ''pore.diameter''"
    using assign_diameter_frame[of getitem "''throat''" "throat_diameter st" ?p] by simp
  show ?thesis
  proof (cases "getitem (self s1) (network s1) (alias_key ''pore.'' (pore_diameter st))")
    case None
    have "self ?p = self s1"
      using assign_diameter_self[of getitem "''pore''" "pore_diameter st" s1] None by simp
    then show ?thesis using None other fin assms by simp
  next
    case (Some v)
    have "self ?p = AList.update ''pore.diameter'' v (self s1)"
      using assign_diameter_self[of getitem "''pore''" "pore_diameter st" s1] Some assms by simp
    then have "map_of (self ?p) ''pore.diameter'' = Some v" by (simp add: update_conv')
    then show ?thesis using Some other fin by simp
  qed
qed

lemma throat_diameter_assigned:
  assumes "map_of (self s1) ''throat.diameter'' = None"
  shows "case getitem (self (assign_diameter getitem ''pore'' (pore_diameter st) s1)) (network s1)
                (alias_key ''throat.'' (throat_diameter st)) of
           Some v \<Rightarrow> map_of (self (assign_diameters getitem st s1)) ''throat.diameter'' = Some v
         | None \<Rightarrow> map_of (self (assign_diameters getitem st s1)) ''throat.diameter'' = None"
proof -
  let ?p = "assign_diameter getitem ''pore'' (pore_diameter st) s1"
  let ?t = "assign_diameter getitem ''throat'' (throat_diameter st) ?p"
  have fin: "assign_diameters getitem st s1 = ?t" by (simp add: assign_diameters_def)
  have c: "map_of (self ?p) ''throat.diameter'' = None"
    using assign_diameter_frame[of getitem "''pore''" "pore_diameter st" s1] assms by simp
  have n: "network ?p = network s1" by (rule assign_diameter_network)
  show ?thesis
  proof (cases "getitem (self ?p) (network s1) (alias_key ''throat.'' (throat_diameter st))")
    case None
    have "self ?t = self ?p"
      using assign_diameter_self[of getitem "''throat''" "throat_diameter st" ?p] None n by simp
    then show ?thesis using None fin c by simp
  next
    case (Some v)
    have "self ?t = AList.update ''throat.diameter'' v (self ?p)"
      using assign_diameter_self[of getitem "''throat''" "throat_diameter st" ?p] Some c n by simp
    then have "map_of (self ?t) ''throat.diameter'' = Some v" by (simp add: update_conv')
    then show ?thesis using Some fin by simp
  qed
qed

lemma assign_diameters_records:
  "records (assign_diameters getitem st s1) =
     records s1 @
     (if map_of (self s1) ''pore.diameter'' = None \<and>
         getitem (self s1) (network s1) (alias_key ''pore.'' (pore_diameter st)) = None
      then [(ERROR, alias_key ''pore.'' (pore_diameter st) @ '' not found, can'' @ [CHR 0x27] @
                    ''t assign '' @ [CHR 0x27] @ ''pore.diameter'' @ [CHR 0x27])]
      else []) @
     (if map_of (self s1) ''throat.diameter'' = None \<and>
         getitem (self (assign_diameter getitem ''pore'' (pore_diameter st) s1)) (network s1)
           (alias_key ''throat.'' (throat_diameter st)) = None
      then [(ERROR, alias_key ''throat.'' (throat_diameter st) @ '' not found, can'' @ [CHR 0x27] @
                    ''t assign '' @ [CHR 0x27] @ ''throat.diameter'' @ [CHR 0x27])]
      else [])"
proof -
  let ?p = "assign_diameter getitem ''pore'' (pore_diameter st) s1"
  have c: "map_of (self ?p) ''throat.diameter'' = map_of (self s1) ''throat.diameter''"
    using assign_diameter_frame[of getitem "''pore''" "pore_diameter st" s1] by simp
  have n: "network ?p = network s1" by (rule assign_diameter_network)
  have rp: "records ?p = records s1 @
     (if map_of (self s1) ''pore.diameter'' = None \<and>
         getitem (self s1) (network s1) (alias_key ''pore.'' (pore_diameter st)) = None
      then [(ERROR, alias_key ''pore.'' (pore_diameter st) @ '' not found, can'' @ [CHR 0x27] @
                    ''t assign '' @ [CHR 0x27] @ ''pore.diameter'' @ [CHR 0x27])]
      else [])"
    using assign_diameter_records[of getitem "''pore''" "pore_diameter st" s1] by simp
  have rt: "records (assign_diameter getitem ''throat'' (throat_diameter st) ?p) = records ?p @
     (if map_of (self s1) ''throat.diameter'' = None \<and>
         getitem (self ?p) (network s1) (alias_key ''throat.'' (throat_diameter st)) = None
      then [(ERROR, alias_key ''throat.'' (throat_diameter st) @ '' not found, can'' @ [CHR 0x27] @
                    ''t assign '' @ [CHR 0x27] @ ''throat.diameter'' @ [CHR 0x27])]
      else [])"
    using assign_diameter_records[of getitem "''throat''" "throat_diameter st" ?p] c n by simp
  show ?thesis unfolding assign_diameters_def rt rp by simp
qed

text \<open>
  C5. After the transfer, when \<open>pore.diameter\<close> is not a key of the geometry, the
  constructor reads \<open>self[alias]\<close> for the alias key
  \<open>'pore.' + pore_diameter.split('pore.')[-1]\<close>: if that returns an array,
  \<open>pore.diameter\<close> holds this array when the constructor ends; if it raises
  \<open>KeyError\<close>, \<open>pore.diameter\<close> stays unset and an error record naming the alias is
  logged. The same holds for \<open>throat.diameter\<close>, whose alias is read after the pore
  step. The assignment is a copy: the network and every other key of the geometry are as
  the transfer left them. The log gains exactly these error records, and the \<open>KeyError\<close>
  never leaves the constructor. This holds for every behaviour of \<open>self[key]\<close>.
\<close>

theorem essential_diameters:
  fixes s s1 :: "('a, 'm) imported_state"
  assumes "transfer_props st lg net geo = (None, s1)"
    and "Imported_init getitem mods st lg net geo = (exc, s)"
  shows "(''pore.diameter'' \<notin> set (keys (self s1)) \<longrightarrow>
            (case getitem (self s1) (network s1) (alias_key ''pore.'' (pore_diameter st)) of
               Some v \<Rightarrow> map_of (self s) ''pore.diameter'' = Some v
             | None \<Rightarrow>
                 map_of (self s) ''pore.diameter'' = None \<and>
                 (ERROR, alias_key ''pore.'' (pore_diameter st) @ '' not found, can'' @ [CHR 0x27] @
                         ''t assign '' @ [CHR 0x27] @ ''pore.diameter'' @ [CHR 0x27])
                   \<in> set (records s))) \<and>
         (''throat.diameter'' \<notin> set (keys (self s1)) \<longrightarrow>
            (case getitem (self (assign_diameter getitem ''pore'' (pore_diameter st) s1)) (network s1)
                    (alias_key ''throat.'' (throat_diameter st)) of
               Some v \<Rightarrow> map_of (self s) ''throat.diameter'' = Some v
             | None \<Rightarrow>
                 map_of (self s) ''throat.diameter'' = None \<and>
                 (ERROR, alias_key ''throat.'' (throat_diameter st) @ '' not found, can'' @ [CHR 0x27] @
                         ''t assign '' @ [CHR 0x27] @ ''throat.diameter'' @ [CHR 0x27])
                   \<in> set (records s))) \<and>
         network s = network s1 \<and>
         (\<forall>k. k \<noteq> ''pore.diameter'' \<and> k \<noteq> ''throat.diameter'' \<longrightarrow>
              map_of (self s) k = map_of (self s1) k) \<and>
         records s =
           lg @
           (if ''pore.diameter'' \<notin> set (keys (self s1)) \<and>
               getitem (self s1) (network s1) (alias_key ''pore.'' (pore_diameter st)) = None
            then [(ERROR, alias_key ''pore.'' (pore_diameter st) @ '' not found, can'' @ [CHR 0x27] @
                          ''t assign '' @ [CHR 0x27] @ ''pore.diameter'' @ [CHR 0x27])]
            else []) @
           (if ''throat.diameter'' \<notin> set (keys (self s1)) \<and>
               getitem (self (assign_diameter getitem ''pore'' (pore_diameter st) s1)) (network s1)
                 (alias_key ''throat.'' (throat_diameter st)) = None
            then [(ERROR, alias_key ''throat.'' (throat_diameter st) @ '' not found, can'' @ [CHR 0x27] @
                          ''t assign '' @ [CHR 0x27] @ ''throat.diameter'' @ [CHR 0x27])]
            else []) \<and>
         (\<forall>k. exc \<noteq> Some (KeyError k))"
proof (intro conjI impI)
  note aft = Imported_init_after_transfer[OF assms]
  have sf: "self s = self (assign_diameters getitem st s1)" using aft by (elim conjE)
  have rc: "records s = records (assign_diameters getitem st s1)" using aft by (elim conjE)
  have rg: "register_models mods st (assign_diameters getitem st s1) = (exc, s)"
    using aft by (elim conjE)
  note af = assign_diameters_frame[of getitem st s1]
  have r1: "records s1 = lg" using transfer_props_frame[OF assms(1)] by (elim conjE)
  show rec: "records s =
           lg @
           (if ''pore.diameter'' \<notin> set (keys (self s1)) \<and>
               getitem (self s1) (network s1) (alias_key ''pore.'' (pore_diameter st)) = None
            then [(ERROR, alias_key ''pore.'' (pore_diameter st) @ '' not found, can'' @ [CHR 0x27] @
                          ''t assign '' @ [CHR 0x27] @ ''pore.diameter'' @ [CHR 0x27])]
            else []) @
           (if ''throat.diameter'' \<notin> set (keys (self s1)) \<and>
               getitem (self (assign_diameter getitem ''pore'' (pore_diameter st) s1)) (network s1)
                 (alias_key ''throat.'' (throat_diameter st)) = None
            then [(ERROR, alias_key ''throat.'' (throat_diameter st) @ '' not found, can'' @ [CHR 0x27] @
                          ''t assign '' @ [CHR 0x27] @ ''throat.diameter'' @ [CHR 0x27])]
            else [])"
    unfolding rc assign_diameters_records[of getitem st s1] r1 keys_iff by simp
  {
    assume k: "''pore.diameter'' \<notin> set (keys (self s1))"
    then have "map_of (self s1) ''pore.diameter'' = None" by (simp add: keys_iff)
    note pa = pore_diameter_assigned[OF this, of getitem st, folded sf]
    show "case getitem (self s1) (network s1) (alias_key ''pore.'' (pore_diameter st)) of
               Some v \<Rightarrow> map_of (self s) ''pore.diameter'' = Some v
             | None \<Rightarrow>
                 map_of (self s) ''pore.diameter'' = None \<and>
                 (ERROR, alias_key ''pore.'' (pore_diameter st) @ '' not found, can'' @ [CHR 0x27] @
                         ''t assign '' @ [CHR 0x27] @ ''pore.diameter'' @ [CHR 0x27])
                   \<in> set (records s)"
    proof (cases "getitem (self s1) (network s1) (alias_key ''pore.'' (pore_diameter st))")
      case None
      then show ?thesis using pa k rec by simp
    next
      case (Some v)
      then show ?thesis using pa by simp
    qed
  }
  {
    assume k: "''throat.diameter'' \<notin> set (keys (self s1))"
    then have "map_of (self s1) ''throat.diameter'' = None" by (simp add: keys_iff)
    note ta = throat_diameter_assigned[OF this, of getitem st, folded sf]
    show "case getitem (self (assign_diameter getitem ''pore'' (pore_diameter st) s1)) (network s1)
                    (alias_key ''throat.'' (throat_diameter st)) of
               Some v \<Rightarrow> map_of (self s) ''throat.diameter'' = Some v
             | None \<Rightarrow>
                 map_of (self s) ''throat.diameter'' = None \<and>
                 (ERROR, alias_key ''throat.'' (throat_diameter st) @ '' not found, can'' @ [CHR 0x27] @
                         ''t assign '' @ [CHR 0x27] @ ''throat.diameter'' @ [CHR 0x27])
                   \<in> set (records s)"
    proof (cases "getitem (self (assign_diameter getitem ''pore'' (pore_diameter st) s1)) (network s1)
                    (alias_key ''throat.'' (throat_diameter st))")
      case None
      then show ?thesis using ta k rec by simp
    next
      case (Some v)
      then show ?thesis using ta by simp
    qed
  }
  show "network s = network s1"
    using register_models_frame[OF rg] af by simp
  show "\<forall>k. k \<noteq> ''pore.diameter'' \<and> k \<noteq> ''throat.diameter'' \<longrightarrow>
              map_of (self s) k = map_of (self s1) k"
    unfolding sf using af by (elim conjE)
  show "\<forall>k. exc \<noteq> Some (KeyError k)"
    using register_models_frame[OF rg] by auto
qed

theorem essential_diameters_witness:
  "transfer_props (ImportedSettings\<lparr>exclude_props := [''pore.extended_diameter'']\<rparr>) []
     [(''pore.extended_diameter'', \<lparr>dtype = FloatT 64, shape = [1], data = [5 :: nat]\<rparr>)] [] =
     (None, \<lparr>records = [],
             network = [(''pore.extended_diameter'', \<lparr>dtype = FloatT 64, shape = [1], data = [5 :: nat]\<rparr>)],
             self = [], models = ([] :: string registration list)\<rparr>) \<and>
   map_of (self (snd (Imported_init
       (\<lambda>g n k. case map_of g k of None \<Rightarrow> map_of n k | Some v \<Rightarrow> Some v)
       \<lparr>throat_length = [''cones_and_cylinders'' \<mapsto> ''L''],
        throat_volume = [''cylinder'' \<mapsto> ''V''],
        diffusive_size_factors = [''cones_and_cylinders'' \<mapsto> ''D''],
        hydraulic_size_factors = [''cones_and_cylinders'' \<mapsto> ''H'']\<rparr>
       (ImportedSettings\<lparr>exclude_props := [''pore.extended_diameter'']\<rparr>) []
       [(''pore.extended_diameter'', \<lparr>dtype = FloatT 64, shape = [1], data = [5 :: nat]\<rparr>)] [])))
     ''pore.diameter'' = Some \<lparr>dtype = FloatT 64, shape = [1], data = [5]\<rparr> \<and>
   map_of (self (snd (Imported_init
       (\<lambda>g n k. case map_of g k of None \<Rightarrow> map_of n k | Some v \<Rightarrow> Some v)
       \<lparr>throat_length = [''cones_and_cylinders'' \<mapsto> ''L''],
        throat_volume = [''cylinder'' \<mapsto> ''V''],
        diffusive_size_factors = [''cones_and_cylinders'' \<mapsto> ''D''],
        hydraulic_size_factors = [''cones_and_cylinders'' \<mapsto> ''H'']\<rparr>
       (ImportedSettings\<lparr>exclude_props := [''pore.extended_diameter'']\<rparr>) []
       [(''pore.extended_diameter'', \<lparr>dtype = FloatT 64, shape = [1], data = [5 :: nat]\<rparr>)] [])))
     ''throat.diameter'' = None \<and>
   records (snd (Imported_init
       (\<lambda>g n k. case map_of g k of None \<Rightarrow> map_of n k | Some v \<Rightarrow> Some v)
       \<lparr>throat_length = [''cones_and_cylinders'' \<mapsto> ''L''],
        throat_volume = [''cylinder'' \<mapsto> ''V''],
        diffusive_size_factors = [''cones_and_cylinders'' \<mapsto> ''D''],
        hydraulic_size_factors = [''cones_and_cylinders'' \<mapsto> ''H'']\<rparr>
       (ImportedSettings\<lparr>exclude_props := [''pore.extended_diameter'']\<rparr>) []
       [(''pore.extended_diameter'', \<lparr>dtype = FloatT 64, shape = [1], data = [5 :: nat]\<rparr>)] [])) =
     [(ERROR, ''throat.inscribed_diameter not found, can'' @ [CHR 0x27] @ ''t assign '' @ [CHR 0x27] @
              ''throat.diameter'' @ [CHR 0x27])]"
proof -
  let ?arr = "\<lparr>dtype = FloatT 64, shape = [1], data = [5 :: nat]\<rparr>"
  let ?net = "[(''pore.extended_diameter'', ?arr)]"
  let ?st = "ImportedSettings\<lparr>exclude_props := [''pore.extended_diameter'']\<rparr>"
  let ?gi = "\<lambda>(g :: nat ndarray pydict) (n :: nat ndarray pydict) k.
               case map_of g k of None \<Rightarrow> map_of n k | Some v \<Rightarrow> Some v"
  let ?s1 = "\<lparr>records = [], network = ?net, self = [],
             models = ([] :: string registration list)\<rparr>"
  let ?mods = "\<lparr>throat_length = [''cones_and_cylinders'' \<mapsto> ''L''],
        throat_volume = [''cylinder'' \<mapsto> ''V''],
        diffusive_size_factors = [''cones_and_cylinders'' \<mapsto> ''D''],
        hydraulic_size_factors = [''cones_and_cylinders'' \<mapsto> ''H'']\<rparr>"
  let ?r = "Imported_init ?gi ?mods ?st [] ?net []"
  have t: "transfer_props ?st [] ?net [] = (None, ?s1)"
    by (simp add: transfer_props_def props_def exclude_list_def ImportedSettings_def pop_def)
  have r: "?r = (fst ?r, snd ?r)" by simp
  have pa: "alias_key ''pore.'' (pore_diameter ?st) = ''pore.extended_diameter''"
    by (simp add: alias_key_def str_split_def ImportedSettings_def)
  have ta: "alias_key ''throat.'' (throat_diameter ?st) = ''throat.inscribed_diameter''"
    by (simp add: alias_key_def str_split_def ImportedSettings_def)
  have kp: "''pore.diameter'' \<notin> set (keys (self ?s1))" by (simp add: keys_def)
  have kt: "''throat.diameter'' \<notin> set (keys (self ?s1))" by (simp add: keys_def)
  have gp: "?gi (self ?s1) (network ?s1) ''pore.extended_diameter'' = Some ?arr" by simp
  have sp: "self (assign_diameter ?gi ''pore'' (pore_diameter ?st) ?s1) = [(''pore.diameter'', ?arr)]"
    by (simp add: assign_diameter_def keys_def alias_key_def str_split_def ImportedSettings_def)
  have gt: "?gi (self (assign_diameter ?gi ''pore'' (pore_diameter ?st) ?s1)) (network ?s1)
              ''throat.inscribed_diameter'' = None"
    unfolding sp by simp
  note th = essential_diameters[OF t r]
  have 1: "map_of (self (snd ?r)) ''pore.diameter'' = Some ?arr"
    using mp[OF conjunct1[OF th] kp] unfolding pa gp by simp
  have 2: "map_of (self (snd ?r)) ''throat.diameter'' = None"
    using mp[OF conjunct1[OF conjunct2[OF th]] kt] unfolding ta gt by simp
  have 3: "records (snd ?r) =
     [(ERROR, ''throat.inscribed_diameter not found, can'' @ [CHR 0x27] @ ''t assign '' @ [CHR 0x27] @
              ''throat.diameter'' @ [CHR 0x27])]"
    using conjunct1[OF conjunct2[OF conjunct2[OF conjunct2[OF conjunct2[OF th]]]]]
    unfolding pa ta gp gt using kp kt by simp
  show ?thesis using t 1 2 3 by (intro conjI)
qed

lemma register_models_found:
  assumes "''throat.length'' \<notin> set (keys (self s)) \<longrightarrow> throat_length mods (shape_pair st) = Some ml"
    and "''throat.volume'' \<notin> set (keys (self s)) \<longrightarrow> throat_volume mods (throat_shape st) = Some mv"
    and "diffusive_size_factors mods (shape_pair st) = Some md"
    and "hydraulic_size_factors mods (shape_pair st) = Some mh"
  shows "register_models mods st s =
           (None, s\<lparr>models := models s @
             (if ''throat.length'' \<notin> set (keys (self s))
              then [(''throat.length'', ml,
                     [(''throat_diameter'', ''throat.diameter''), (''pore_diameter'', ''pore.diameter'')])]
              else []) @
             (if ''throat.volume'' \<notin> set (keys (self s))
              then [(''throat.volume'', mv,
                     [(''throat_length'', ''throat.length''), (''throat_diameter'', ''throat.diameter'')])]
              else []) @
             [(''throat.diffusive_size_factors'', md, []),
              (''throat.hydraulic_size_factors'', mh, [])]\<rparr>)"
  using assms by (simp add: register_defs)

lemma register_models_no_volume:
  assumes "\<not> (''throat.length'' \<notin> set (keys (self s)) \<and> throat_length mods (shape_pair st) = None)"
    and "''throat.volume'' \<notin> set (keys (self s))" and "throat_volume mods (throat_shape st) = None"
  shows "fst (register_models mods st s) = Some (AttributeError (throat_shape st))"
  using assms by (auto simp: register_defs split: option.splits)

lemma register_models_no_size_factors:
  assumes "\<not> (''throat.length'' \<notin> set (keys (self s)) \<and> throat_length mods (shape_pair st) = None)"
    and "\<not> (''throat.volume'' \<notin> set (keys (self s)) \<and> throat_volume mods (throat_shape st) = None)"
    and "diffusive_size_factors mods (shape_pair st) = None \<or>
         hydraulic_size_factors mods (shape_pair st) = None"
  shows "fst (register_models mods st s) = Some (AttributeError (shape_pair st))"
  using assms by (auto simp: register_defs split: option.splits)

text \<open>
  C6. The attribute looked up for the configured shapes is
  \<open>pore_shape + 's' + '_and_' + throat_shape + 's'\<close>. After a transfer that ran to its
  end, the outcome of the registrations is decided by the lookups in the order of the
  source. When every module that is read holds its attribute (the throat-length module
  under the pair name when \<open>throat.length\<close> is not a key of the geometry, the
  throat-volume module under the throat shape when \<open>throat.volume\<close> is not a key,
  both size-factor modules under the pair name), the constructor returns normally and
  the models registered are exactly these callables, in this order. When a module that
  is read lacks its attribute, the constructor raises \<open>AttributeError\<close> naming the
  attribute of the first failing lookup; when that is the first lookup of all, nothing
  has been registered.
\<close>

theorem shape_pair_lookup:
  fixes s s1 :: "('a, 'm) imported_state"
  assumes "transfer_props st lg net geo = (None, s1)"
    and "Imported_init getitem mods st lg net geo = (exc, s)"
  shows "shape_pair st = pore_shape st @ ''s'' @ ''_and_'' @ throat_shape st @ ''s'' \<and>
         (\<forall>ml mv md mh.
            (''throat.length'' \<notin> set (keys (self s1)) \<longrightarrow>
               throat_length mods (shape_pair st) = Some ml) \<and>
            (''throat.volume'' \<notin> set (keys (self s1)) \<longrightarrow>
               throat_volume mods (throat_shape st) = Some mv) \<and>
            diffusive_size_factors mods (shape_pair st) = Some md \<and>
            hydraulic_size_factors mods (shape_pair st) = Some mh \<longrightarrow>
            exc = None \<and>
            models s =
              (if ''throat.length'' \<notin> set (keys (self s1))
               then [(''throat.length'', ml,
                      [(''throat_diameter'', ''throat.diameter''), (''pore_diameter'', ''pore.diameter'')])]
               else []) @
              (if ''throat.volume'' \<notin> set (keys (self s1))
               then [(''throat.volume'', mv,
                      [(''throat_length'', ''throat.length''), (''throat_diameter'', ''throat.diameter'')])]
               else []) @
              [(''throat.diffusive_size_factors'', md, []),
               (''throat.hydraulic_size_factors'', mh, [])]) \<and>
         (diffusive_size_factors mods (shape_pair st) = None \<or>
          hydraulic_size_factors mods (shape_pair st) = None \<or>
          (''throat.length'' \<notin> set (keys (self s1)) \<and> throat_length mods (shape_pair st) = None)
          \<longrightarrow> (\<exists>n. exc = Some (AttributeError n))) \<and>
         (''throat.length'' \<notin> set (keys (self s1)) \<and> throat_length mods (shape_pair st) = None
          \<longrightarrow> exc = Some (AttributeError (shape_pair st)) \<and> models s = []) \<and>
         (\<not> (''throat.length'' \<notin> set (keys (self s1)) \<and> throat_length mods (shape_pair st) = None) \<and>
          ''throat.volume'' \<notin> set (keys (self s1)) \<and> throat_volume mods (throat_shape st) = None
          \<longrightarrow> exc = Some (AttributeError (throat_shape st))) \<and>
         (\<not> (''throat.length'' \<notin> set (keys (self s1)) \<and> throat_length mods (shape_pair st) = None) \<and>
          \<not> (''throat.volume'' \<notin> set (keys (self s1)) \<and> throat_volume mods (throat_shape st) = None) \<and>
          (diffusive_size_factors mods (shape_pair st) = None \<or>
           hydraulic_size_factors mods (shape_pair st) = None)
          \<longrightarrow> exc = Some (AttributeError (shape_pair st))) \<and>
         (exc = None \<longrightarrow>
            (\<exists>md mh. diffusive_size_factors mods (shape_pair st) = Some md \<and>
                     hydraulic_size_factors mods (shape_pair st) = Some mh \<and>
                     (''throat.diffusive_size_factors'', md, []) \<in> set (models s) \<and>
                     (''throat.hydraulic_size_factors'', mh, []) \<in> set (models s)))"
proof (intro conjI impI allI)
  let ?a = "assign_diameters getitem st s1"
  have rg: "register_models mods st ?a = (exc, s)"
    using Imported_init_after_transfer[OF assms] by (elim conjE)
  note af = assign_diameters_frame[of getitem st s1]
  have len: "''throat.length'' \<in> set (keys (self ?a)) \<longleftrightarrow> ''throat.length'' \<in> set (keys (self s1))"
    unfolding keys_iff using af by simp
  have vol: "''throat.volume'' \<in> set (keys (self ?a)) \<longleftrightarrow> ''throat.volume'' \<in> set (keys (self s1))"
    unfolding keys_iff using af by simp
  have m0: "models ?a = []"
    using af transfer_props_frame[OF assms(1)] by simp
  show "shape_pair st = pore_shape st @ ''s'' @ ''_and_'' @ throat_shape st @ ''s''"
    by (simp add: shape_pair_def)
  {
    fix ml mv md mh
    assume h: "(''throat.length'' \<notin> set (keys (self s1)) \<longrightarrow>
               throat_length mods (shape_pair st) = Some ml) \<and>
            (''throat.volume'' \<notin> set (keys (self s1)) \<longrightarrow>
               throat_volume mods (throat_shape st) = Some mv) \<and>
            diffusive_size_factors mods (shape_pair st) = Some md \<and>
            hydraulic_size_factors mods (shape_pair st) = Some mh"
    have 1: "''throat.length'' \<notin> set (keys (self ?a)) \<longrightarrow> throat_length mods (shape_pair st) = Some ml"
      using h len by simp
    have 2: "''throat.volume'' \<notin> set (keys (self ?a)) \<longrightarrow> throat_volume mods (throat_shape st) = Some mv"
      using h vol by simp
    have 3: "diffusive_size_factors mods (shape_pair st) = Some md" using h by (elim conjE)
    have 4: "hydraulic_size_factors mods (shape_pair st) = Some mh" using h by (elim conjE)
    note f = register_models_found[OF 1 2 3 4]
    have e: "exc = None" using f rg by simp
    have "(exc, s) = (None, ?a\<lparr>models := models ?a @
             (if ''throat.length'' \<notin> set (keys (self ?a))
              then [(''throat.length'', ml,
                     [(''throat_diameter'', ''throat.diameter''), (''pore_diameter'', ''pore.diameter'')])]
              else []) @
             (if ''throat.volume'' \<notin> set (keys (self ?a))
              then [(''throat.volume'', mv,
                     [(''throat_length'', ''throat.length''), (''throat_diameter'', ''throat.diameter'')])]
              else []) @
             [(''throat.diffusive_size_factors'', md, []),
              (''throat.hydraulic_size_factors'', mh, [])]\<rparr>)"
      using f unfolding rg .
    then have "models s = models ?a @
             (if ''throat.length'' \<notin> set (keys (self ?a))
              then [(''throat.length'', ml,
                     [(''throat_diameter'', ''throat.diameter''), (''pore_diameter'', ''pore.diameter'')])]
              else []) @
             (if ''throat.volume'' \<notin> set (keys (self ?a))
              then [(''throat.volume'', mv,
                     [(''throat_length'', ''throat.length''), (''throat_diameter'', ''throat.diameter'')])]
              else []) @
             [(''throat.diffusive_size_factors'', md, []),
              (''throat.hydraulic_size_factors'', mh, [])]"
      by simp
    then have m: "models s =
              (if ''throat.length'' \<notin> set (keys (self s1))
               then [(''throat.length'', ml,
                      [(''throat_diameter'', ''throat.diameter''), (''pore_diameter'', ''pore.diameter'')])]
               else []) @
              (if ''throat.volume'' \<notin> set (keys (self s1))
               then [(''throat.volume'', mv,
                      [(''throat_length'', ''throat.length''), (''throat_diameter'', ''throat.diameter'')])]
               else []) @
              [(''throat.diffusive_size_factors'', md, []),
               (''throat.hydraulic_size_factors'', mh, [])]"
      unfolding m0 len vol by simp
    show "exc = None" by (rule e)
    show "models s =
              (if ''throat.length'' \<notin> set (keys (self s1))
               then [(''throat.length'', ml,
                      [(''throat_diameter'', ''throat.diameter''), (''pore_diameter'', ''pore.diameter'')])]
               else []) @
              (if ''throat.volume'' \<notin> set (keys (self s1))
               then [(''throat.volume'', mv,
                      [(''throat_length'', ''throat.length''), (''throat_diameter'', ''throat.diameter'')])]
               else []) @
              [(''throat.diffusive_size_factors'', md, []),
               (''throat.hydraulic_size_factors'', mh, [])]" by (rule m)
  }
  {
    assume "diffusive_size_factors mods (shape_pair st) = None \<or>
          hydraulic_size_factors mods (shape_pair st) = None \<or>
          (''throat.length'' \<notin> set (keys (self s1)) \<and> throat_length mods (shape_pair st) = None)"
    then have "exc \<noteq> None" using register_models_missing[OF rg] len by simp
    then show "\<exists>n. exc = Some (AttributeError n)"
      using register_models_frame[OF rg] by auto
  }
  {
    assume a: "''throat.length'' \<notin> set (keys (self s1)) \<and> throat_length mods (shape_pair st) = None"
    then have "register_models mods st ?a = (Some (AttributeError (shape_pair st)), ?a)"
      using register_models_no_length[of ?a mods st] len by simp
    then have "exc = Some (AttributeError (shape_pair st)) \<and> s = ?a" using rg by simp
    then show "exc = Some (AttributeError (shape_pair st))" and "models s = []" using m0 by simp_all
  }
  {
    assume a: "\<not> (''throat.length'' \<notin> set (keys (self s1)) \<and> throat_length mods (shape_pair st) = None) \<and>
          ''throat.volume'' \<notin> set (keys (self s1)) \<and> throat_volume mods (throat_shape st) = None"
    have "fst (register_models mods st ?a) = Some (AttributeError (throat_shape st))"
      using a len vol by (intro register_models_no_volume) simp_all
    then show "exc = Some (AttributeError (throat_shape st))" using rg by simp
  }
  {
    assume a: "\<not> (''throat.length'' \<notin> set (keys (self s1)) \<and> throat_length mods (shape_pair st) = None) \<and>
          \<not> (''throat.volume'' \<notin> set (keys (self s1)) \<and> throat_volume mods (throat_shape st) = None) \<and>
          (diffusive_size_factors mods (shape_pair st) = None \<or>
           hydraulic_size_factors mods (shape_pair st) = None)"
    have "fst (register_models mods st ?a) = Some (AttributeError (shape_pair st))"
      using a len vol by (intro register_models_no_size_factors) simp_all
    then show "exc = Some (AttributeError (shape_pair st))" using rg by simp
  }
  {
    assume "exc = None"
    then have "register_models mods st ?a = (None, s)" using rg by simp
    from register_models_done[OF this]
    show "\<exists>md mh. diffusive_size_factors mods (shape_pair st) = Some md \<and>
                     hydraulic_size_factors mods (shape_pair st) = Some mh \<and>
                     (''throat.diffusive_size_factors'', md, []) \<in> set (models s) \<and>
                     (''throat.hydraulic_size_factors'', mh, []) \<in> set (models s)"
      by (elim exE conjE) simp
  }
qed

theorem shape_pair_lookup_witness:
  "transfer_props ImportedSettings []
     [(''pore.volume'', \<lparr>dtype = FloatT 64, shape = [1], data = [7 :: nat]\<rparr>)] [] =
     (None, \<lparr>records = [], network = [],
             self = [(''pore.volume'', \<lparr>dtype = FloatT 64, shape = [1], data = [7 :: nat]\<rparr>)],
             models = ([] :: string registration list)\<rparr>) \<and>
   shape_pair ImportedSettings = ''cones_and_cylinders'' \<and>
   fst (Imported_init
       (\<lambda>g n k. case map_of g k of None \<Rightarrow> map_of n k | Some v \<Rightarrow> Some v)
       \<lparr>throat_length = [''cones_and_cylinders'' \<mapsto> ''L''],
        throat_volume = [''cylinder'' \<mapsto> ''V''],
        diffusive_size_factors = [''cones_and_cylinders'' \<mapsto> ''D''],
        hydraulic_size_factors = [''cones_and_cylinders'' \<mapsto> ''H'']\<rparr>
       ImportedSettings []
       [(''pore.volume'', \<lparr>dtype = FloatT 64, shape = [1], data = [7 :: nat]\<rparr>)] []) = None \<and>
   models (snd (Imported_init
       (\<lambda>g n k. case map_of g k of None \<Rightarrow> map_of n k | Some v \<Rightarrow> Some v)
       \<lparr>throat_length = [''cones_and_cylinders'' \<mapsto> ''L''],
        throat_volume = [''cylinder'' \<mapsto> ''V''],
        diffusive_size_factors = [''cones_and_cylinders'' \<mapsto> ''D''],
        hydraulic_size_factors = [''cones_and_cylinders'' \<mapsto> ''H'']\<rparr>
       ImportedSettings []
       [(''pore.volume'', \<lparr>dtype = FloatT 64, shape = [1], data = [7 :: nat]\<rparr>)] [])) =
     [(''throat.length'', ''L'',
       [(''throat_diameter'', ''throat.diameter''), (''pore_diameter'', ''pore.diameter'')]),
      (''throat.volume'', ''V'',
       [(''throat_length'', ''throat.length''), (''throat_diameter'', ''throat.diameter'')]),
      (''throat.diffusive_size_factors'', ''D'', []),
      (''throat.hydraulic_size_factors'', ''H'', [])] \<and>
   transfer_props (ImportedSettings\<lparr>pore_shape := ''sphere'', throat_shape := ''cuboid''\<rparr>) []
     [(''pore.volume'', \<lparr>dtype = FloatT 64, shape = [1], data = [7 :: nat]\<rparr>)] [] =
     (None, \<lparr>records = [], network = [],
             self = [(''pore.volume'', \<lparr>dtype = FloatT 64, shape = [1], data = [7 :: nat]\<rparr>)],
             models = ([] :: string registration list)\<rparr>) \<and>
   shape_pair (ImportedSettings\<lparr>pore_shape := ''sphere'', throat_shape := ''cuboid''\<rparr>) =
     ''spheres_and_cuboids'' \<and>
   [''cones_and_cylinders'' \<mapsto> ''L''] ''spheres_and_cuboids'' = None \<and>
   fst (Imported_init
       (\<lambda>g n k. case map_of g k of None \<Rightarrow> map_of n k | Some v \<Rightarrow> Some v)
       \<lparr>throat_length = [''cones_and_cylinders'' \<mapsto> ''L''],
        throat_volume = [''cylinder'' \<mapsto> ''V''],
        diffusive_size_factors = [''cones_and_cylinders'' \<mapsto> ''D''],
        hydraulic_size_factors = [''cones_and_cylinders'' \<mapsto> ''H'']\<rparr>
       (ImportedSettings\<lparr>pore_shape := ''sphere'', throat_shape := ''cuboid''\<rparr>) []
       [(''pore.volume'', \<lparr>dtype = FloatT 64, shape = [1], data = [7 :: nat]\<rparr>)] []) =
     Some (AttributeError ''spheres_and_cuboids'') \<and>
   models (snd (Imported_init
       (\<lambda>g n k. case map_of g k of None \<Rightarrow> map_of n k | Some v \<Rightarrow> Some v)
       \<lparr>throat_length = [''cones_and_cylinders'' \<mapsto> ''L''],
        throat_volume = [''cylinder'' \<mapsto> ''V''],
        diffusive_size_factors = [''cones_and_cylinders'' \<mapsto> ''D''],
        hydraulic_size_factors = [''cones_and_cylinders'' \<mapsto> ''H'']\<rparr>
       (ImportedSettings\<lparr>pore_shape := ''sphere'', throat_shape := ''cuboid''\<rparr>) []
       [(''pore.volume'', \<lparr>dtype = FloatT 64, shape = [1], data = [7 :: nat]\<rparr>)] [])) = []"
proof -
  let ?arr = "\<lparr>dtype = FloatT 64, shape = [1], data = [7 :: nat]\<rparr>"
  let ?net = "[(''pore.volume'', ?arr)]"
  let ?gi = "\<lambda>(g :: nat ndarray pydict) (n :: nat ndarray pydict) k.
               case map_of g k of None \<Rightarrow> map_of n k | Some v \<Rightarrow> Some v"
  let ?st = "ImportedSettings\<lparr>pore_shape := ''sphere'', throat_shape := ''cuboid''\<rparr>"
  let ?s1 = "\<lparr>records = [], network = [], self = [(''pore.volume'', ?arr)],
             models = ([] :: string registration list)\<rparr>"
  let ?mods = "\<lparr>throat_length = [''cones_and_cylinders'' \<mapsto> ''L''],
        throat_volume = [''cylinder'' \<mapsto> ''V''],
        diffusive_size_factors = [''cones_and_cylinders'' \<mapsto> ''D''],
        hydraulic_size_factors = [''cones_and_cylinders'' \<mapsto> ''H'']\<rparr>"
  let ?ok = "Imported_init ?gi ?mods ImportedSettings [] ?net []"
  let ?r = "Imported_init ?gi ?mods ?st [] ?net []"
  have t0: "transfer_props ImportedSettings [] ?net [] = (None, ?s1)"
    by (simp add: transfer_props_def props_def exclude_list_def ImportedSettings_def pop_def)
  have r0: "?ok = (fst ?ok, snd ?ok)" by simp
  have sp0: "shape_pair ImportedSettings = ''cones_and_cylinders''"
    by (simp add: shape_pair_def ImportedSettings_def)
  have ts: "throat_shape ImportedSettings = ''cylinder''" by (simp add: ImportedSettings_def)
  have kl: "''throat.length'' \<notin> set (keys (self ?s1))" by (simp add: keys_def)
  have kv: "''throat.volume'' \<notin> set (keys (self ?s1))" by (simp add: keys_def)
  have found: "(''throat.length'' \<notin> set (keys (self ?s1)) \<longrightarrow>
               throat_length ?mods (shape_pair ImportedSettings) = Some ''L'') \<and>
            (''throat.volume'' \<notin> set (keys (self ?s1)) \<longrightarrow>
               throat_volume ?mods (throat_shape ImportedSettings) = Some ''V'') \<and>
            diffusive_size_factors ?mods (shape_pair ImportedSettings) = Some ''D'' \<and>
            hydraulic_size_factors ?mods (shape_pair ImportedSettings) = Some ''H''"
    unfolding sp0 ts by simp
  note th0 = shape_pair_lookup[OF t0 r0]
  have ok: "fst ?ok = None \<and>
            models (snd ?ok) =
              (if ''throat.length'' \<notin> set (keys (self ?s1))
               then [(''throat.length'', ''L'',
                      [(''throat_diameter'', ''throat.diameter''), (''pore_diameter'', ''pore.diameter'')])]
               else []) @
              (if ''throat.volume'' \<notin> set (keys (self ?s1))
               then [(''throat.volume'', ''V'',
                      [(''throat_length'', ''throat.length''), (''throat_diameter'', ''throat.diameter'')])]
               else []) @
              [(''throat.diffusive_size_factors'', ''D'', []),
               (''throat.hydraulic_size_factors'', ''H'', [])]"
    using mp[OF spec[OF spec[OF spec[OF spec[OF conjunct1[OF conjunct2[OF th0]]]]]] found] .
  have ok1: "fst ?ok = None" using ok by (elim conjE)
  have ok2: "models (snd ?ok) =
     [(''throat.length'', ''L'',
       [(''throat_diameter'', ''throat.diameter''), (''pore_diameter'', ''pore.diameter'')]),
      (''throat.volume'', ''V'',
       [(''throat_length'', ''throat.length''), (''throat_diameter'', ''throat.diameter'')]),
      (''throat.diffusive_size_factors'', ''D'', []),
      (''throat.hydraulic_size_factors'', ''H'', [])]"
    using ok kl kv by simp
  have t: "transfer_props ?st [] ?net [] = (None, ?s1)"
    by (simp add: transfer_props_def props_def exclude_list_def ImportedSettings_def pop_def)
  have r: "?r = (fst ?r, snd ?r)" by simp
  have sp: "shape_pair ?st = ''spheres_and_cuboids''"
    by (simp add: shape_pair_def ImportedSettings_def)
  have ab: "[''cones_and_cylinders'' \<mapsto> ''L''] ''spheres_and_cuboids'' = None" by simp
  have pre: "''throat.length'' \<notin> set (keys (self ?s1)) \<and>
             throat_length ?mods (shape_pair ?st) = None"
    unfolding sp by (simp add: keys_def)
  note th = shape_pair_lookup[OF t r]
  have 1: "fst ?r = Some (AttributeError (shape_pair ?st)) \<and> models (snd ?r) = []"
    using mp[OF conjunct1[OF conjunct2[OF conjunct2[OF conjunct2[OF th]]]] pre] .
  have f1: "fst ?r = Some (AttributeError ''spheres_and_cuboids'')" using 1 unfolding sp by (elim conjE)
  have f2: "models (snd ?r) = []" using 1 by (elim conjE)
  show ?thesis using t0 sp0 ok1 ok2 t sp ab f1 f2 by (intro conjI)
qed

text \<open>
  C7. The claim says that each of the four models is registered only when its property
  is not already on the geometry. Lines 115 and 122 guard \<open>throat.length\<close> and
  \<open>throat.volume\<close> so; lines 129 to 132 register both size-factor models without a
  guard. On a network that carries \<open>throat.diffusive_size_factors\<close> and
  \<open>throat.length\<close>, the constructor returns normally, the geometry holds the
  transferred size factors, and the model for them is registered all the same, while
  none is registered for \<open>throat.length\<close>. (Here \<open>self[key]\<close> reads the geometry's
  dictionary, then the network's.)
\<close>

theorem size_factors_registered_when_present:
  "fst (Imported_init
       (\<lambda>g n k. case map_of g k of None \<Rightarrow> map_of n k | Some v \<Rightarrow> Some v)
       \<lparr>throat_length = [''cones_and_cylinders'' \<mapsto> ''L''],
        throat_volume = [''cylinder'' \<mapsto> ''V''],
        diffusive_size_factors = [''cones_and_cylinders'' \<mapsto> ''D''],
        hydraulic_size_factors = [''cones_and_cylinders'' \<mapsto> ''H'']\<rparr>
       ImportedSettings []
       [(''throat.diffusive_size_factors'', \<lparr>dtype = FloatT 64, shape = [1], data = [7 :: nat]\<rparr>),
        (''throat.length'', \<lparr>dtype = FloatT 64, shape = [1], data = [2]\<rparr>)] []) = None \<and>
   self (snd (Imported_init
       (\<lambda>g n k. case map_of g k of None \<Rightarrow> map_of n k | Some v \<Rightarrow> Some v)
       \<lparr>throat_length = [''cones_and_cylinders'' \<mapsto> ''L''],
        throat_volume = [''cylinder'' \<mapsto> ''V''],
        diffusive_size_factors = [''cones_and_cylinders'' \<mapsto> ''D''],
        hydraulic_size_factors = [''cones_and_cylinders'' \<mapsto> ''H'']\<rparr>
       ImportedSettings []
       [(''throat.diffusive_size_factors'', \<lparr>dtype = FloatT 64, shape = [1], data = [7 :: nat]\<rparr>),
        (''throat.length'', \<lparr>dtype = FloatT 64, shape = [1], data = [2]\<rparr>)] [])) =
     [(''throat.diffusive_size_factors'', \<lparr>dtype = FloatT 64, shape = [1], data = [7]\<rparr>),
      (''throat.length'', \<lparr>dtype = FloatT 64, shape = [1], data = [2]\<rparr>)] \<and>
   models (snd (Imported_init
       (\<lambda>g n k. case map_of g k of None \<Rightarrow> map_of n k | Some v \<Rightarrow> Some v)
       \<lparr>throat_length = [''cones_and_cylinders'' \<mapsto> ''L''],
        throat_volume = [''cylinder'' \<mapsto> ''V''],
        diffusive_size_factors = [''cones_and_cylinders'' \<mapsto> ''D''],
        hydraulic_size_factors = [''cones_and_cylinders'' \<mapsto> ''H'']\<rparr>
       ImportedSettings []
       [(''throat.diffusive_size_factors'', \<lparr>dtype = FloatT 64, shape = [1], data = [7 :: nat]\<rparr>),
        (''throat.length'', \<lparr>dtype = FloatT 64, shape = [1], data = [2]\<rparr>)] [])) =
     [(''throat.volume'', ''V'',
       [(''throat_length'', ''throat.length''), (''throat_diameter'', ''throat.diameter'')]),
      (''throat.diffusive_size_factors'', ''D'', []),
      (''throat.hydraulic_size_factors'', ''H'', [])]"
  by (simp add: init_defs)

lemma assign_diameter_alias_cong:
  assumes "alias_key (element @ ''.'') a = alias_key (element @ ''.'') b"
  shows "assign_diameter getitem element a s = assign_diameter getitem element b s"
  using assms by (simp add: assign_diameter_def)

lemma register_models_shapes:
  assumes "pore_shape st' = pore_shape st" and "throat_shape st' = throat_shape st"
  shows "register_models mods st' s = register_models mods st s"
proof -
  have sp: "shape_pair st' = shape_pair st" using assms by (simp add: shape_pair_def)
  have l: "register_throat_length mods st' = register_throat_length mods st"
    by (rule ext) (simp add: register_throat_length_def sp)
  have v: "register_throat_volume mods st' = register_throat_volume mods st"
    by (rule ext) (simp add: register_throat_volume_def assms(2))
  have d: "register_diffusive mods st' = register_diffusive mods st"
    by (rule ext) (simp add: register_diffusive_def sp)
  have h: "register_hydraulic mods st' = register_hydraulic mods st"
    by (rule ext) (simp add: register_hydraulic_def sp)
  show ?thesis unfolding register_models_def l v d h ..
qed

lemma Imported_init_settings_cong:
  assumes "exclude_props st' = exclude_props st"
    and "pore_shape st' = pore_shape st" and "throat_shape st' = throat_shape st"
    and "alias_key ''pore.'' (pore_diameter st') = alias_key ''pore.'' (pore_diameter st)"
    and "alias_key ''throat.'' (throat_diameter st') = alias_key ''throat.'' (throat_diameter st)"
  shows "Imported_init getitem mods st' lg net geo = Imported_init getitem mods st lg net geo"
proof -
  have t: "transfer_props st' lg net geo = (transfer_props st lg net geo :: error option \<times> ('a, 'b) imported_state)"
    using assms(1) by (simp add: transfer_props_def exclude_list_def)
  have a: "assign_diameters getitem st' s = assign_diameters getitem st s" for s :: "('a, 'b) imported_state"
  proof -
    let ?p = "assign_diameter getitem ''pore'' (pore_diameter st) s"
    have "assign_diameter getitem ''pore'' (pore_diameter st') s = ?p"
      using assign_diameter_alias_cong[of "''pore''" "pore_diameter st'" "pore_diameter st" getitem s] assms(4)
      by simp
    moreover have "assign_diameter getitem ''throat'' (throat_diameter st') ?p =
                   assign_diameter getitem ''throat'' (throat_diameter st) ?p"
      using assign_diameter_alias_cong[of "''throat''" "throat_diameter st'" "throat_diameter st" getitem ?p] assms(5)
      by simp
    ultimately show ?thesis by (simp add: assign_diameters_def)
  qed
  show ?thesis
    unfolding Imported_init_def t
    by (simp add: a register_models_shapes[OF assms(2,3)])
qed

text \<open>
  C9. The alias key is the prefix joined to the last piece of the setting split at the
  prefix: that piece contains no occurrence of the prefix, and it is the whole setting
  or what follows an occurrence of the prefix in it. So a setting \<open>v\<close> and the setting
  \<open>'pore.' + v\<close> give the same alias key, and the constructor gives the same outcome and
  the same final state for both; likewise for \<open>throat_diameter\<close> and \<open>'throat.'\<close>.
\<close>

theorem alias_prefix_normalized:
  "alias_key ''pore.'' (''pore.'' @ v) = alias_key ''pore.'' v \<and>
   alias_key ''throat.'' (''throat.'' @ v) = alias_key ''throat.'' v \<and>
   Imported_init getitem mods (st\<lparr>pore_diameter := ''pore.'' @ v\<rparr>) lg net geo =
     Imported_init getitem mods (st\<lparr>pore_diameter := v\<rparr>) lg net geo \<and>
   Imported_init getitem mods (st\<lparr>throat_diameter := ''throat.'' @ v\<rparr>) lg net geo =
     Imported_init getitem mods (st\<lparr>throat_diameter := v\<rparr>) lg net geo \<and>
   (\<exists>r. alias_key ''pore.'' v = ''pore.'' @ r \<and>
        (\<forall>i. take (length ''pore.'') (drop i r) \<noteq> ''pore.'') \<and>
        (r = v \<or> (\<exists>u. v = u @ ''pore.'' @ r))) \<and>
   (\<exists>r. alias_key ''throat.'' v = ''throat.'' @ r \<and>
        (\<forall>i. take (length ''throat.'') (drop i r) \<noteq> ''throat.'') \<and>
        (r = v \<or> (\<exists>u. v = u @ ''throat.'' @ r)))"
proof (intro conjI)
  show p: "alias_key ''pore.'' (''pore.'' @ v) = alias_key ''pore.'' v"
    by (rule alias_key_prefix) simp
  show t: "alias_key ''throat.'' (''throat.'' @ v) = alias_key ''throat.'' v"
    by (rule alias_key_prefix) simp
  show "Imported_init getitem mods (st\<lparr>pore_diameter := ''pore.'' @ v\<rparr>) lg net geo =
     Imported_init getitem mods (st\<lparr>pore_diameter := v\<rparr>) lg net geo"
    using p by (intro Imported_init_settings_cong) simp_all
  show "Imported_init getitem mods (st\<lparr>throat_diameter := ''throat.'' @ v\<rparr>) lg net geo =
     Imported_init getitem mods (st\<lparr>throat_diameter := v\<rparr>) lg net geo"
    using t by (intro Imported_init_settings_cong) simp_all
  show "\<exists>r. alias_key ''pore.'' v = ''pore.'' @ r \<and>
        (\<forall>i. take (length ''pore.'') (drop i r) \<noteq> ''pore.'') \<and>
        (r = v \<or> (\<exists>u. v = u @ ''pore.'' @ r))"
    by (rule alias_key_last_occurrence) simp
  show "\<exists>r. alias_key ''throat.'' v = ''throat.'' @ r \<and>
        (\<forall>i. take (length ''throat.'') (drop i r) \<noteq> ''throat.'') \<and>
        (r = v \<or> (\<exists>u. v = u @ ''throat.'' @ r))"
    by (rule alias_key_last_occurrence) simp
qed

theorem alias_prefix_normalized_witness:
  "alias_key ''pore.'' ''pore.extended_diameter'' = ''pore.extended_diameter'' \<and>
   alias_key ''pore.'' ''extended_diameter'' = ''pore.extended_diameter'' \<and>
   alias_key ''throat.'' ''throat.throat.size'' = ''throat.size''"
proof -
  have 1: "alias_key ''pore.'' ''extended_diameter'' = ''pore.extended_diameter''"
    by (simp add: alias_key_def str_split_def)
  have 2: "alias_key ''throat.'' ''size'' = ''throat.size''"
    by (simp add: alias_key_def str_split_def)
  note th = alias_prefix_normalized
  have 3: "alias_key ''pore.'' ''pore.extended_diameter'' = alias_key ''pore.'' ''extended_diameter''"
    using conjunct1[OF th[of "''extended_diameter''"]] by simp
  have 4: "alias_key ''throat.'' ''throat.size'' = alias_key ''throat.'' ''size''"
    using conjunct1[OF conjunct2[OF th[of "''size''"]]] by simp
  have 5: "alias_key ''throat.'' ''throat.throat.size'' = alias_key ''throat.'' ''throat.size''"
    using conjunct1[OF conjunct2[OF th[of "''throat.size''"]]] by simp
  show ?thesis using 1 2 3 4 5 by simp
qed

end
